(* ===== verification/Prelude.thy ===== *)
theory Prelude
  imports Complex_Main "HOL-Library.Sublist"
begin

text \<open>
  Shared vocabulary of the development: the names of the model's basic types, the
  collections of equations the component proofs unfold together, and generic lemmas on
  lists (selection, ordering, truncation) and on characters (ASCII case folding, digits)
  that the query, parsing and handler theories all use.
\<close>

named_theorems handler_defs "definitions of the Flask view functions, unfolded together"
named_theorems parse_defs "definitions of the Python string-to-number conversions"

type_synonym coord = rat
type_synonym point = "coord \<times> coord" \<comment> \<open>\<open>(x, y)\<close> = (longitude, latitude), as in \<open>POINT(x y)\<close>\<close>

subsection \<open>Characters\<close>

text \<open>
  A \<open>char\<close> stands for a Unicode code point below 256 (Latin-1); code points beyond
  are not represented. Case folding is ASCII only: \<open>A\<close>..\<open>Z\<close> to \<open>a\<close>..\<open>z\<close>.
\<close>

definition ascii_lower :: "char \<Rightarrow> char" where
  "ascii_lower c =
     (case map_of (zip ''ABCDEFGHIJKLMNOPQRSTUVWXYZ'' ''abcdefghijklmnopqrstuvwxyz'') c of
        Some d \<Rightarrow> d | None \<Rightarrow> c)"

definition is_digit :: "char \<Rightarrow> bool" where
  "is_digit c \<longleftrightarrow> (48::nat) \<le> of_char c \<and> of_char c \<le> (57::nat)"

definition digit_val :: "char \<Rightarrow> nat" where
  "digit_val c = of_char c - 48"

definition digit_char :: "nat \<Rightarrow> char" where
  "digit_char d = char_of (48 + d)"

subsection \<open>Selection, ordering and truncation of result lists\<close>

text \<open>
  Both search queries have the shape \<open>LIMIT n (ORDER BY key (WHERE P rows))\<close>; the
  three lemmas below are what every result property of them rests on.
\<close>

lemma take_sort_key_filter_mem:
  "x \<in> set (take n (sort_key f (filter P xs))) \<Longrightarrow> P x \<and> x \<in> set xs"
  by (auto dest: in_set_takeD)

lemma sorted_take_sort_key: "sorted (map f (take n (sort_key f xs)))"
proof -
  have "sorted (take n (map f (sort_key f xs)))"
    using sorted_sort_key [of f xs] by (rule sorted_wrt_take)
  then show ?thesis by (simp add: take_map)
qed

lemma take_sort_key_filter_length:
  "length (take n (sort_key f (filter P xs))) = min n (length (filter P xs))"
  by simp

lemma mem_take_sort_key_filter:
  assumes "x \<in> set xs" and "P x" and "length (filter P xs) \<le> n"
  shows "x \<in> set (take n (sort_key f (filter P xs)))"
  using assms by simp

lemma sum_list_map_one: "\<forall>x\<in>set xs. f x = (1::nat) \<Longrightarrow> sum_list (map f xs) = length xs"
  by (induction xs) auto

subsection \<open>Characters: lemmas\<close>

lemma ascii_lower_punct [simp]:
  "ascii_lower CHR ''%'' = CHR ''%''" "ascii_lower CHR ''_'' = CHR ''_''"
  "ascii_lower (CHR 0x5C) = CHR 0x5C"
  by (simp_all add: ascii_lower_def)

lemma digit_val_digit_char [simp]: "d < 10 \<Longrightarrow> digit_val (digit_char d) = d"
  by (simp add: digit_val_def digit_char_def)

lemma is_digit_digit_char [simp]: "d < 10 \<Longrightarrow> is_digit (digit_char d)"
  by (simp add: is_digit_def digit_char_def)

lemma digit_char_not_underscore [simp]: "d < 10 \<Longrightarrow> digit_char d \<noteq> CHR ''_''"
proof
  assume "d < 10" and "digit_char d = CHR ''_''"
  then have "is_digit CHR ''_''" by (metis is_digit_digit_char)
  then show False by (simp add: is_digit_def)
qed

end
