(* ===== verification/PyRuntime.thy ===== *)
theory PyRuntime
  imports Prelude
begin

text \<open>
  The part of the Python runtime, of Werkzeug and of Flask that \<open>src/app.py\<close> relies on:
  Python values (the parsed JSON body, query parameters, database rows and the dicts the
  handlers build), the exceptions the handlers catch, the conversions \<open>int(...)\<close> and
  \<open>float(...)\<close> applied to query-string values, truthiness (the \<open>if price_min:\<close>
  tests), the \<open>in\<close> operator of the insert validation, dictionary access, Werkzeug's
  \<open>request.args.get\<close> with and without \<open>type=\<close>, Flask's \<open>jsonify\<close>, \<open>str(e)\<close>
  and \<open>str(i)\<close>.
  Each definition follows CPython's or the library's rules for the values that can reach
  it; where the code only ever passes one kind of value the others are still given
  their Python behaviour.
\<close>

subsection \<open>Values\<close>

text \<open>
  Python floats: a finite value (kept as the exact decimal the text denotes: rounding to
  binary64 of finite values is not modelled, overflow to infinity is), the two infinities
  and NaN. Timestamps are \<open>datetime\<close> objects; \<open>utcoffset\<close> is \<open>None\<close> for a naive
  one and the offset in minutes for an aware one.
\<close>

datatype pyfloat = Fin rat | PosInf | NegInf | NaN

record datetime =
  year :: nat
  month :: nat
  day :: nat
  hour :: nat
  minute :: nat
  second :: nat
  microsecond :: nat
  utcoffset :: "int option"

datatype pyval =
    PNone
  | PBool bool
  | PInt int
  | PFloat pyfloat
  | PStr string
  | PDecimal rat
  | PDatetime datetime
  | PList "pyval list"
  | PDict "(string \<times> pyval) list"
  | PCallable string \<comment> \<open>a function object, by its name\<close>

text \<open>
  A \<open>dict\<close> is an association list in insertion order; lookups take the first entry,
  which is the only one for the dicts the program handles (JSON objects and literal dicts
  with distinct keys).
\<close>

datatype exc =
    ValueError string
  | TypeError string
  | KeyError string
  | IndexError string
  | AttributeError string
  | OverflowError string
  | DatabaseError string
  | OperationalError string
  | IntegrityError string
  | HTTPException nat string \<comment> \<open>Werkzeug's \<open>BadRequest\<close> (400), \<open>UnsupportedMediaType\<close> (415)\<close>

text \<open>
  Exception propagation: a statement that raises skips the rest of the \<open>try\<close> block.
\<close>

definition exc_bind :: "exc + 'a \<Rightarrow> ('a \<Rightarrow> exc + 'b) \<Rightarrow> exc + 'b" where
  "exc_bind x f = (case x of Inl e \<Rightarrow> Inl e | Inr a \<Rightarrow> f a)"

subsection \<open>Truthiness\<close>

fun py_truthy :: "pyval \<Rightarrow> bool" where
  "py_truthy PNone = False"
| "py_truthy (PBool b) = b"
| "py_truthy (PInt i) = (i \<noteq> 0)"
| "py_truthy (PFloat f) = (f \<noteq> Fin 0)"
| "py_truthy (PStr s) = (s \<noteq> [])"
| "py_truthy (PDecimal r) = (r \<noteq> 0)"
| "py_truthy (PDatetime d) = True"
| "py_truthy (PList xs) = (xs \<noteq> [])"
| "py_truthy (PDict kvs) = (kvs \<noteq> [])"
| "py_truthy (PCallable f) = True"

text \<open>
  Werkzeug's typed getters return \<open>None\<close> or a value of one type: the injections of
  \<open>Optional[int]\<close>, \<open>Optional[float]\<close> and \<open>Optional[str]\<close> into Python values.
\<close>

definition pv_int :: "int option \<Rightarrow> pyval" where
  "pv_int x = (case x of None \<Rightarrow> PNone | Some i \<Rightarrow> PInt i)"

definition pv_float :: "pyfloat option \<Rightarrow> pyval" where
  "pv_float x = (case x of None \<Rightarrow> PNone | Some f \<Rightarrow> PFloat f)"

definition pv_num :: "rat option \<Rightarrow> pyval" where
  "pv_num x = (case x of None \<Rightarrow> PNone | Some r \<Rightarrow> PDecimal r)"

definition pv_str :: "string option \<Rightarrow> pyval" where
  "pv_str x = (case x of None \<Rightarrow> PNone | Some s \<Rightarrow> PStr s)"

subsection \<open>Whitespace, signs and digit groups\<close>

text \<open>
  \<open>int(s)\<close> and \<open>float(s)\<close> first map every Unicode white space to a blank and strip
  it from both ends (for Latin-1: TAB..CR, the four separators 0x1C..0x1F, SPACE, NEL and
  NBSP). Digits may be grouped by single underscores between digits (PEP 515).
\<close>

definition py_space :: "char \<Rightarrow> bool" where
  "py_space c \<longleftrightarrow> of_char c \<in> {9, 10, 11, 12, 13, 28, 29, 30, 31, 32, 133, 160 :: nat}"

definition py_strip :: "string \<Rightarrow> string" where
  "py_strip s = rev (dropWhile py_space (rev (dropWhile py_space s)))"

definition split_sign :: "string \<Rightarrow> bool \<times> string" where
  "split_sign s =
     (case s of
        [] \<Rightarrow> (False, [])
      | c # u \<Rightarrow> if c = CHR ''-'' then (True, u) else if c = CHR ''+'' then (False, u) else (False, s))"

fun split_us :: "string \<Rightarrow> string list" where
  "split_us [] = [[]]"
| "split_us (c # s) =
     (let gs = split_us s in if c = CHR ''_'' then [] # gs else (c # hd gs) # tl gs)"

definition digit_groups :: "string \<Rightarrow> string option" where
  "digit_groups s =
     (let gs = split_us s in
      if (\<forall>g \<in> set gs. g \<noteq> [] \<and> list_all is_digit g) then Some (concat gs) else None)"

definition nat_of_digits :: "string \<Rightarrow> nat" where
  "nat_of_digits ds = foldl (\<lambda>n c. 10 * n + digit_val c) 0 ds"

subsection \<open>\<open>int(s)\<close>\<close>

text \<open>
  Base 10: optional sign, at least one digit, underscores only between digits, and at
  most 4300 digits (CPython's limit on integer string conversion since 3.11).
\<close>

definition parse_int_str :: "string \<Rightarrow> int option" where
  "parse_int_str s =
     (let (neg, u) = split_sign (py_strip s) in
      case digit_groups u of
        None \<Rightarrow> None
      | Some ds \<Rightarrow>
          if 4300 < length ds then None
          else let n = int (nat_of_digits ds) in Some (if neg then - n else n))"

definition py_trunc :: "rat \<Rightarrow> int" where
  "py_trunc r = (if 0 \<le> r then \<lfloor>r\<rfloor> else \<lceil>r\<rceil>)"

fun py_int :: "pyval \<Rightarrow> exc + int" where
  "py_int (PInt i) = Inr i"
| "py_int (PBool b) = Inr (if b then 1 else 0)"
| "py_int (PStr s) =
     (case parse_int_str s of
        Some i \<Rightarrow> Inr i
      | None \<Rightarrow> Inl (ValueError ''invalid literal for int() with base 10''))"
| "py_int (PFloat (Fin r)) = Inr (py_trunc r)"
| "py_int (PFloat NaN) = Inl (ValueError ''cannot convert float NaN to integer'')"
| "py_int (PFloat _) = Inl (OverflowError ''cannot convert float infinity to integer'')"
| "py_int (PDecimal r) = Inr (py_trunc r)"
| "py_int _ = Inl (TypeError ''int() argument must be a string, a bytes-like object or a real number'')"

text \<open>\<open>str(i)\<close> for an int: optional minus sign and the decimal digits.\<close>

fun nat_digits :: "nat \<Rightarrow> string" where
  "nat_digits n = (if n < 10 then [digit_char n] else nat_digits (n div 10) @ [digit_char (n mod 10)])"

definition py_str_int :: "int \<Rightarrow> string" where
  "py_str_int i = (if i < 0 then CHR ''-'' # nat_digits (nat (- i)) else nat_digits (nat i))"

subsection \<open>\<open>float(s)\<close>\<close>

text \<open>
  A decimal literal is \<open>digits [. digits] [e [sign] digits]\<close> or
  \<open>. digits [e ...]\<close>; besides, \<open>inf\<close>, \<open>infinity\<close> and \<open>nan\<close> in any case, with
  an optional sign. A finite value of magnitude at least \<open>2^1024 - 2^970\<close> rounds to an
  infinity.
\<close>

definition opt_digits :: "string \<Rightarrow> string option" where
  "opt_digits s = (if s = [] then Some [] else digit_groups s)"

definition parse_exponent :: "string \<Rightarrow> int option" where
  "parse_exponent e =
     (if e = [] then Some 0
      else let (neg, u) = split_sign (tl e) in
        map_option (\<lambda>ds. let n = int (nat_of_digits ds) in if neg then - n else n)
          (digit_groups u))"

definition scale10 :: "int \<Rightarrow> rat" where
  "scale10 x = (if 0 \<le> x then 10 ^ nat x else 1 / 10 ^ nat (- x))"

definition parse_decimal :: "string \<Rightarrow> rat option" where
  "parse_decimal u =
     (let m = takeWhile (\<lambda>c. c \<noteq> CHR ''e'' \<and> c \<noteq> CHR ''E'') u;
          e = dropWhile (\<lambda>c. c \<noteq> CHR ''e'' \<and> c \<noteq> CHR ''E'') u;
          ip = takeWhile (\<lambda>c. c \<noteq> CHR ''.'') m;
          rest = dropWhile (\<lambda>c. c \<noteq> CHR ''.'') m;
          fp = (if rest = [] then [] else tl rest)
      in case (opt_digits ip, opt_digits fp, parse_exponent e) of
           (Some ids, Some fds, Some x) \<Rightarrow>
             if ids = [] \<and> fds = [] then None
             else Some (of_nat (nat_of_digits (ids @ fds)) * scale10 x / 10 ^ length fds)
         | _ \<Rightarrow> None)"

definition float_round :: "rat \<Rightarrow> pyfloat" where
  "float_round r =
     (if 2 ^ 1024 - 2 ^ 970 \<le> r then PosInf
      else if r \<le> - (2 ^ 1024 - 2 ^ 970) then NegInf
      else Fin r)"

definition parse_float_str :: "string \<Rightarrow> pyfloat option" where
  "parse_float_str s =
     (let (neg, u) = split_sign (py_strip s); l = map ascii_lower u in
      if l = ''inf'' \<or> l = ''infinity'' then Some (if neg then NegInf else PosInf)
      else if l = ''nan'' then Some NaN
      else map_option (\<lambda>r. float_round (if neg then - r else r)) (parse_decimal u))"

fun py_float :: "pyval \<Rightarrow> exc + pyfloat" where
  "py_float (PFloat f) = Inr f"
| "py_float (PInt i) = Inr (float_round (of_int i))"
| "py_float (PBool b) = Inr (Fin (if b then 1 else 0))"
| "py_float (PDecimal r) = Inr (float_round r)"
| "py_float (PStr s) =
     (case parse_float_str s of
        Some f \<Rightarrow> Inr f
      | None \<Rightarrow> Inl (ValueError ''could not convert string to float''))"
| "py_float _ = Inl (TypeError ''float() argument must be a string or a real number'')"

declare parse_int_str_def [parse_defs] parse_float_str_def [parse_defs]
  parse_decimal_def [parse_defs] parse_exponent_def [parse_defs] opt_digits_def [parse_defs]
  digit_groups_def [parse_defs] nat_of_digits_def [parse_defs] py_strip_def [parse_defs]
  py_space_def [parse_defs] split_sign_def [parse_defs] scale10_def [parse_defs]
  float_round_def [parse_defs] is_digit_def [parse_defs] digit_val_def [parse_defs]

subsection \<open>\<open>str.join\<close>\<close>

fun py_join :: "string \<Rightarrow> string list \<Rightarrow> string" where
  "py_join sep [] = []"
| "py_join sep [x] = x"
| "py_join sep (x # y # zs) = x @ sep @ py_join sep (y # zs)"

subsection \<open>Containers: \<open>in\<close>, subscription, \<open>dict.get\<close>\<close>

text \<open>
  \<open>k in x\<close> for a string \<open>k\<close>: key membership for a dict, element membership for a
  list, substring for a string; any other value is not iterable (\<open>TypeError\<close>).
\<close>

fun py_contains :: "pyval \<Rightarrow> string \<Rightarrow> exc + bool" where
  "py_contains (PDict kvs) k = Inr (k \<in> fst ` set kvs)"
| "py_contains (PList xs) k = Inr (PStr k \<in> set xs)"
| "py_contains (PStr s) k = Inr (sublist k s)"
| "py_contains _ k = Inl (TypeError ''argument is not iterable'')"

text \<open>\<open>all(k in x for k in ks)\<close>: the generator stops at the first false test.\<close>

fun py_all_in :: "string list \<Rightarrow> pyval \<Rightarrow> exc + bool" where
  "py_all_in [] x = Inr True"
| "py_all_in (k # ks) x =
     (case py_contains x k of
        Inl e \<Rightarrow> Inl e
      | Inr False \<Rightarrow> Inr False
      | Inr True \<Rightarrow> py_all_in ks x)"

fun py_getitem :: "pyval \<Rightarrow> string \<Rightarrow> exc + pyval" where
  "py_getitem (PDict kvs) k = (case map_of kvs k of Some v \<Rightarrow> Inr v | None \<Rightarrow> Inl (KeyError k))"
| "py_getitem (PList xs) k = Inl (TypeError ''list indices must be integers or slices, not str'')"
| "py_getitem (PStr s) k = Inl (TypeError ''string indices must be integers'')"
| "py_getitem _ k = Inl (TypeError ''object is not subscriptable'')"

fun py_dict_get :: "pyval \<Rightarrow> string \<Rightarrow> pyval \<Rightarrow> exc + pyval" where
  "py_dict_get (PDict kvs) k d = Inr (case map_of kvs k of Some v \<Rightarrow> v | None \<Rightarrow> d)"
| "py_dict_get _ k d = Inl (AttributeError ''object has no attribute get'')"

subsection \<open>Werkzeug: \<open>request.args.get\<close>\<close>

text \<open>
  The query string as decoded (key, value) pairs in request order; \<open>get\<close> returns the
  first value of a key. With \<open>type=f\<close> a conversion that raises \<open>ValueError\<close> or
  \<open>TypeError\<close> yields the default \<open>None\<close> instead.
\<close>

type_synonym query_args = "(string \<times> string) list"

definition args_get :: "query_args \<Rightarrow> string \<Rightarrow> pyval \<Rightarrow> pyval" where
  "args_get args k d = (case map_of args k of Some v \<Rightarrow> PStr v | None \<Rightarrow> d)"

definition args_get_str :: "query_args \<Rightarrow> string \<Rightarrow> string option" where
  "args_get_str args k = map_of args k"

definition args_get_int :: "query_args \<Rightarrow> string \<Rightarrow> int option" where
  "args_get_int args k =
     (case map_of args k of
        None \<Rightarrow> None
      | Some v \<Rightarrow> (case py_int (PStr v) of Inr i \<Rightarrow> Some i | Inl _ \<Rightarrow> None))"

definition args_get_float :: "query_args \<Rightarrow> string \<Rightarrow> pyfloat option" where
  "args_get_float args k =
     (case map_of args k of
        None \<Rightarrow> None
      | Some v \<Rightarrow> (case py_float (PStr v) of Inr f \<Rightarrow> Some f | Inl _ \<Rightarrow> None))"

subsection \<open>Exception messages\<close>

text \<open>\<open>str(e)\<close>: the exception's message (Werkzeug's HTTP exceptions print their code first).\<close>

fun exc_str :: "exc \<Rightarrow> string" where
  "exc_str (ValueError m) = m"
| "exc_str (TypeError m) = m"
| "exc_str (KeyError m) = CHR 0x27 # m @ [CHR 0x27]"
| "exc_str (IndexError m) = m"
| "exc_str (AttributeError m) = m"
| "exc_str (OverflowError m) = m"
| "exc_str (DatabaseError m) = m"
| "exc_str (OperationalError m) = m"
| "exc_str (IntegrityError m) = m"
| "exc_str (HTTPException c m) = nat_digits c @ '' '' @ m"

subsection \<open>Flask: responses and \<open>jsonify\<close>\<close>

record response =
  status :: nat
  body :: pyval

text \<open>
  \<open>jsonify(*args, **kwargs)\<close> serialises one positional argument, or a list of several,
  or the keyword arguments as an object; given both positional and keyword arguments it
  raises \<open>TypeError\<close> (Flask 1.x: "behavior undefined when passed both args and
  kwargs"; Flask 2.2 and later: "app.json.response() takes either args or kwargs, not
  both"). The JSON text itself is not modelled: the response body is the value.
\<close>

definition jsonify :: "pyval list \<Rightarrow> (string \<times> pyval) list \<Rightarrow> exc + pyval" where
  "jsonify args kwargs =
     (if args \<noteq> [] \<and> kwargs \<noteq> [] then Inl (TypeError ''jsonify() takes either args or kwargs, not both'')
      else case args of
        [] \<Rightarrow> Inr (PDict kwargs)
      | [a] \<Rightarrow> Inr a
      | _ \<Rightarrow> Inr (PList args))"

subsection \<open>Lemmas\<close>

lemma exc_bind_simps [simp]:
  "exc_bind (Inl e) f = Inl e" "exc_bind (Inr a) f = f a"
  by (simp_all add: exc_bind_def)

lemma exc_bind_Inr_iff: "exc_bind x f = Inr b \<longleftrightarrow> (\<exists>a. x = Inr a \<and> f a = Inr b)"
  by (cases x) auto

lemma jsonify_single [simp]: "jsonify [a] [] = Inr a"
  by (simp add: jsonify_def)

lemma py_truthy_pv [simp]:
  "py_truthy (pv_int x) \<longleftrightarrow> x \<noteq> None \<and> x \<noteq> Some 0"
  "py_truthy (pv_float y) \<longleftrightarrow> y \<noteq> None \<and> y \<noteq> Some (Fin 0)"
  "py_truthy (pv_str z) \<longleftrightarrow> z \<noteq> None \<and> z \<noteq> Some []"
  by (auto simp: pv_int_def pv_float_def pv_str_def split: option.splits)

subsection \<open>Decimal digits\<close>

lemma nat_digits_simps [simp]:
  "n < 10 \<Longrightarrow> nat_digits n = [digit_char n]"
  "10 \<le> n \<Longrightarrow> nat_digits n = nat_digits (n div 10) @ [digit_char (n mod 10)]"
  by simp_all

declare nat_digits.simps [simp del]

end
