(* ===== verification/Store.thy ===== *)
theory Store
  imports PyRuntime
begin

text \<open>
  The PostgreSQL/PostGIS store, the external collaborator of \<open>src/app.py\<close> (spec
  sections 3 and 6): the \<open>properties\<close> table, its id sequence and column defaults, the
  server facts the health probe reads, and the meaning of the SQL fragments the program
  sends: parameter placeholders and their positional binding (psycopg2), the five filter
  templates of the search, \<open>LIKE\<close>/\<open>ILIKE\<close> patterns, \<open>LIMIT\<close>, the WKT point the
  queries build with \<open>ST_GeomFromText('POINT(%s %s)', 4326)\<close>, and the coercion of
  parameters into the insert's columns. The spatial distance is a parameter of the
  store (\<open>st_distance\<close>); \<open>ST_DWithin(a, b, r)\<close> is \<open>st_distance a b \<le> r\<close>.
\<close>

subsection \<open>Rows and the store state\<close>

record prop_row =
  pid :: int
  address :: string
  price :: rat
  bedrooms :: "rat option"
  bathrooms :: "rat option"
  square_feet :: "rat option"
  property_type :: "string option"
  listing_status :: "string option"
  location :: "point option"
  created_at :: datetime

record db =
  rows :: "prop_row list"
  id_seq :: int \<comment> \<open>the value \<open>nextval\<close> of the id sequence returns next\<close>
  clock :: datetime \<comment> \<open>\<open>NOW()\<close>\<close>
  online :: bool \<comment> \<open>whether a connection can be opened\<close>
  status_default :: "string option" \<comment> \<open>column default of \<open>listing_status\<close>\<close>
  pg_version :: string
  db_name :: string
  db_user :: string
  postgis_version :: "string option" \<comment> \<open>\<open>PostGIS_Version()\<close>; \<open>None\<close>: extension not installed\<close>
  st_distance :: "point \<Rightarrow> point \<Rightarrow> rat" \<comment> \<open>\<open>ST_Distance\<close>, a float8 value\<close>

subsection \<open>Placeholders and positional binding\<close>

text \<open>
  psycopg2 replaces each \<open>%s\<close> of the statement by the next parameter, in order, and
  reads \<open>%%\<close> as a literal percent sign.
\<close>

fun count_ph :: "string \<Rightarrow> nat" where
  "count_ph [] = 0"
| "count_ph (c # d # s) =
     (if c = CHR ''%'' \<and> d = CHR ''s'' then Suc (count_ph s)
      else if c = CHR ''%'' \<and> d = CHR ''%'' then count_ph s
      else count_ph (d # s))"
| "count_ph [c] = 0"

fun bind_params :: "string list \<Rightarrow> pyval list \<Rightarrow> ((string \<times> pyval list) list \<times> pyval list) option" where
  "bind_params [] ps = Some ([], ps)"
| "bind_params (t # ts) ps =
     (let k = count_ph t in
      if length ps < k then None
      else map_option (\<lambda>(bs, rest). ((t, take k ps) # bs, rest)) (bind_params ts (drop k ps)))"

subsection \<open>Reading the statement text\<close>

text \<open>
  The store reads the statement it is sent: the text is cut at the first occurrence of
  a separator (\<open>split_first\<close>), at the last one (\<open>split_last\<close>), or at every one
  (\<open>split_on\<close>).
\<close>

fun split_first :: "string \<Rightarrow> string \<Rightarrow> (string \<times> string) option" where
  "split_first sep [] = None"
| "split_first sep (c # s) =
     (if take (length sep) (c # s) = sep then Some ([], drop (length sep) (c # s))
      else map_option (\<lambda>(a, b). (c # a, b)) (split_first sep s))"

definition split_last :: "string \<Rightarrow> string \<Rightarrow> (string \<times> string) option" where
  "split_last sep s = map_option (\<lambda>(a, b). (rev b, rev a)) (split_first (rev sep) (rev s))"

text \<open>\<open>split_on sep acc s\<close>: \<open>acc\<close> holds the piece read so far.\<close>

fun split_on :: "string \<Rightarrow> string \<Rightarrow> string \<Rightarrow> string list" where
  "split_on sep acc [] = [acc]"
| "split_on sep acc (c # s) =
     (if sep \<noteq> [] \<and> take (length sep) (c # s) = sep then acc # split_on sep [] (drop (length sep - 1) s)
      else split_on sep (acc @ [c]) s)"

text \<open>
  psycopg2 refuses a string parameter that contains a NUL character (\<open>ValueError\<close>,
  raised in the driver before anything is sent).
\<close>

fun has_nul :: "pyval \<Rightarrow> bool" where
  "has_nul (PStr s) \<longleftrightarrow> CHR 0x00 \<in> set s"
| "has_nul _ \<longleftrightarrow> False"

subsection \<open>Comparisons with parameters\<close>

text \<open>
  A numeric column compared with a bound parameter. \<open>NULL\<close> on either side makes the
  comparison unknown, which a \<open>WHERE\<close> conjunction treats as false. A float parameter
  compares as \<open>float8\<close>: \<open>NaN\<close> is above every number. A parameter of another type is
  rejected when the statement is planned (\<open>None\<close>).
\<close>

fun num_ge :: "pyval \<Rightarrow> (rat option \<Rightarrow> bool) option" where
  "num_ge (PInt i) = Some (\<lambda>c. case c of Some r \<Rightarrow> of_int i \<le> r | None \<Rightarrow> False)"
| "num_ge (PFloat (Fin q)) = Some (\<lambda>c. case c of Some r \<Rightarrow> q \<le> r | None \<Rightarrow> False)"
| "num_ge (PFloat NegInf) = Some (\<lambda>c. c \<noteq> None)"
| "num_ge (PFloat _) = Some (\<lambda>c. False)"
| "num_ge PNone = Some (\<lambda>c. False)"
| "num_ge _ = None"

fun num_le :: "pyval \<Rightarrow> (rat option \<Rightarrow> bool) option" where
  "num_le (PInt i) = Some (\<lambda>c. case c of Some r \<Rightarrow> r \<le> of_int i | None \<Rightarrow> False)"
| "num_le (PFloat (Fin q)) = Some (\<lambda>c. case c of Some r \<Rightarrow> r \<le> q | None \<Rightarrow> False)"
| "num_le (PFloat NegInf) = Some (\<lambda>c. False)"
| "num_le (PFloat _) = Some (\<lambda>c. c \<noteq> None)"
| "num_le PNone = Some (\<lambda>c. False)"
| "num_le _ = None"

subsection \<open>\<open>LIKE\<close> and \<open>ILIKE\<close>\<close>

text \<open>
  In a \<open>LIKE\<close> pattern \<open>%\<close> matches any sequence, \<open>_\<close> any one character and a
  backslash makes the next character literal; a pattern that ends in a lone backslash is
  an error. \<open>ILIKE\<close> folds case on both sides first.
\<close>

fun like_match :: "string \<Rightarrow> string \<Rightarrow> bool"
  and like_any :: "string \<Rightarrow> string \<Rightarrow> bool" where
  "like_match [] s = (s = [])"
| "like_match (c # p) s =
     (if c = CHR ''%'' then like_any p s
      else if c = CHR ''_'' then (case s of [] \<Rightarrow> False | _ # s' \<Rightarrow> like_match p s')
      else if c = CHR 0x5C then
        (case p of
           [] \<Rightarrow> False
         | e # p' \<Rightarrow> (case s of [] \<Rightarrow> False | d # s' \<Rightarrow> d = e \<and> like_match p' s'))
      else (case s of [] \<Rightarrow> False | d # s' \<Rightarrow> d = c \<and> like_match p s'))"
| "like_any p [] = like_match p []"
| "like_any p (d # s) = (like_match p (d # s) \<or> like_any p s)"

fun dangling_escape :: "string \<Rightarrow> bool" where
  "dangling_escape [] = False"
| "dangling_escape [c] = (c = CHR 0x5C)"
| "dangling_escape (c # d # p) = (if c = CHR 0x5C then dangling_escape p else dangling_escape (d # p))"

definition sql_ilike :: "pyval \<Rightarrow> (string option \<Rightarrow> bool) option" where
  "sql_ilike v =
     (case v of
        PStr p \<Rightarrow>
          if dangling_escape p then None
          else Some (\<lambda>c. case c of
                           Some s \<Rightarrow> like_match (map ascii_lower p) (map ascii_lower s)
                         | None \<Rightarrow> False)
      | PNone \<Rightarrow> Some (\<lambda>c. False)
      | _ \<Rightarrow> None)"

subsection \<open>The filter templates\<close>

text \<open>
  The meaning of each condition text the search builds, applied to the parameters bound
  to its placeholders; any other text is not part of the model's SQL (\<open>None\<close>).
\<close>

definition sql_quote :: "string \<Rightarrow> string" where
  "sql_quote s = CHR 0x27 # s @ [CHR 0x27]"

definition active_cond :: string where
  "active_cond = ''listing_status = '' @ [CHR 0x27] @ ''active'' @ [CHR 0x27]"

definition eval_cond :: "string \<Rightarrow> pyval list \<Rightarrow> (prop_row \<Rightarrow> bool) option" where
  "eval_cond t ps =
     (if t = active_cond \<and> ps = [] then Some (\<lambda>r. listing_status r = Some ''active'')
      else case ps of
        [v] \<Rightarrow>
          if t = ''price >= %s'' then map_option (\<lambda>f r. f (Some (price r))) (num_ge v)
          else if t = ''price <= %s'' then map_option (\<lambda>f r. f (Some (price r))) (num_le v)
          else if t = ''bedrooms >= %s'' then map_option (\<lambda>f r. f (bedrooms r)) (num_ge v)
          else if t = ''bathrooms >= %s'' then map_option (\<lambda>f r. f (bathrooms r)) (num_ge v)
          else if t = ''property_type ILIKE %s'' then map_option (\<lambda>f r. f (property_type r)) (sql_ilike v)
          else None
      | _ \<Rightarrow> None)"

subsection \<open>\<open>LIMIT\<close>\<close>

fun sql_limit :: "pyval \<Rightarrow> 'a list \<Rightarrow> exc + 'a list" where
  "sql_limit (PInt n) xs =
     (if n < 0 then Inl (DatabaseError ''LIMIT must not be negative'') else Inr (take (nat n) xs))"
| "sql_limit PNone xs = Inr xs"
| "sql_limit _ xs = Inl (DatabaseError ''argument of LIMIT must be type bigint'')"

subsection \<open>\<open>SELECT\<close> statements over the table\<close>

text \<open>
  The \<open>SELECT\<close> statements of the model's SQL: \<open>SELECT cols FROM properties WHERE
  c1 AND ... AND cn ORDER BY col [ASC|DESC] LIMIT %s;\<close>. The projection is not
  interpreted (the rows come back whole and the view reads the selected columns); the
  conditions are read back at \<open> AND \<close> and evaluated by \<open>eval_cond\<close>; the sort
  column is one of the non-\<open>NULL\<close> numeric columns. Rows of equal key keep their
  table order (PostgreSQL leaves their order open; the model fixes one). Any other text
  is outside the model's SQL (\<open>None\<close>).
\<close>

definition order_key :: "string \<Rightarrow> (prop_row \<Rightarrow> rat) option" where
  "order_key c =
     (if c = ''price'' then Some price else if c = ''id'' then Some (\<lambda>r. of_int (pid r)) else None)"

definition parse_order :: "string \<Rightarrow> ((prop_row \<Rightarrow> rat) \<times> bool) option" where
  "parse_order s =
     (case split_on '' '' [] s of
        [c, dir, l, ph] \<Rightarrow>
          if l = ''LIMIT'' \<and> ph = ''%s;'' \<and> (dir = ''ASC'' \<or> dir = ''DESC'')
          then map_option (\<lambda>k. (k, dir = ''DESC'')) (order_key c) else None
      | [c, l, ph] \<Rightarrow>
          if l = ''LIMIT'' \<and> ph = ''%s;'' then map_option (\<lambda>k. (k, False)) (order_key c) else None
      | _ \<Rightarrow> None)"

definition parse_select :: "string \<Rightarrow> (string list \<times> (prop_row \<Rightarrow> rat) \<times> bool) option" where
  "parse_select sql =
     (case split_first '' FROM properties WHERE '' sql of
        None \<Rightarrow> None
      | Some (sel, rest) \<Rightarrow>
          if take 7 sel \<noteq> ''SELECT '' then None
          else case split_last '' ORDER BY '' rest of
            None \<Rightarrow> None
          | Some (w, ord) \<Rightarrow> map_option (\<lambda>(k, desc). (split_on '' AND '' [] w, k, desc)) (parse_order ord))"

text \<open>\<open>ORDER BY k\<close> (ascending) or \<open>ORDER BY k DESC\<close>, rows of equal key in table order.\<close>

definition order_rows :: "(prop_row \<Rightarrow> rat) \<Rightarrow> bool \<Rightarrow> prop_row list \<Rightarrow> prop_row list" where
  "order_rows k desc rs = (if desc then sort_key (\<lambda>r. - k r) rs else sort_key k rs)"

subsection \<open>\<open>float8\<close> input\<close>

text \<open>
  A number converted to \<open>double precision\<close> (an integer or numeric literal passed where
  \<open>float8\<close> is expected): the conversion fails with "value out of range" when the value
  rounds to an infinity, at the same bound as Python's \<open>float\<close>.
\<close>

definition float8_in :: "rat \<Rightarrow> rat option" where
  "float8_in r = (case float_round r of Fin q \<Rightarrow> Some q | _ \<Rightarrow> None)"

subsection \<open>Points\<close>

text \<open>
  \<open>'POINT(%s %s)'\<close> sits inside an SQL string literal, so it only parses when both
  parameters are rendered as plain numbers: an int, a finite float or a Decimal.
  psycopg2 renders \<open>None\<close> as \<open>NULL\<close>, a bool as \<open>true\<close>, a string quoted and a
  non-finite float as \<open>'NaN'::float\<close>, each of which breaks the literal or the WKT.
\<close>

fun wkt_coord :: "pyval \<Rightarrow> coord option" where
  "wkt_coord (PInt i) = Some (of_int i)"
| "wkt_coord (PFloat (Fin r)) = Some r"
| "wkt_coord (PDecimal r) = Some r"
| "wkt_coord _ = None"

definition wkt_point :: "pyval \<Rightarrow> pyval \<Rightarrow> point option" where
  "wkt_point x y =
     (case (wkt_coord x, wkt_coord y) of (Some a, Some b) \<Rightarrow> Some (a, b) | _ \<Rightarrow> None)"

subsection \<open>Parameters in the insert's columns\<close>

text \<open>
  A parameter bound to a \<open>text\<close> column: a string, \<open>NULL\<close>, or a number or boolean
  rendered as its literal and cast on assignment. A float, list or dict is rejected (a
  simplification: PostgreSQL would store a float's or an array's text form; psycopg2
  cannot adapt a dict). A \<open>numeric\<close> column takes \<open>NULL\<close>, an int, a finite float
  or a Decimal, or a string in numeric input syntax; a boolean, a list, a dict or a
  non-finite float is rejected (also a simplification for the last: PostgreSQL 14 and
  later store \<open>NaN\<close> and infinities in \<open>numeric\<close>).
\<close>

fun sql_text :: "pyval \<Rightarrow> string option option" where
  "sql_text PNone = Some None"
| "sql_text (PStr s) = Some (Some s)"
| "sql_text (PInt i) = Some (Some (py_str_int i))"
| "sql_text (PBool b) = Some (Some (if b then ''true'' else ''false''))"
| "sql_text _ = None"

definition pg_numeric_in :: "string \<Rightarrow> rat option" where
  "pg_numeric_in s =
     (let (neg, u) = split_sign (py_strip s) in
      map_option (\<lambda>r. if neg then - r else r) (parse_decimal u))"

fun sql_numeric :: "pyval \<Rightarrow> rat option option" where
  "sql_numeric PNone = Some None"
| "sql_numeric (PInt i) = Some (Some (of_int i))"
| "sql_numeric (PFloat (Fin r)) = Some (Some r)"
| "sql_numeric (PDecimal r) = Some (Some r)"
| "sql_numeric (PStr s) = map_option Some (pg_numeric_in s)"
| "sql_numeric _ = None"

text \<open>
  The row an insert would store, from its eight bound parameters, when every parameter
  fits its column (\<open>None\<close>: the statement is rejected before it runs).
\<close>

record insert_values =
  iv_address :: "string option"
  iv_price :: "rat option"
  iv_bedrooms :: "rat option"
  iv_bathrooms :: "rat option"
  iv_square_feet :: "rat option"
  iv_property_type :: "string option"
  iv_location :: point

definition coerce_insert :: "pyval list \<Rightarrow> insert_values option" where
  "coerce_insert ps =
     (case ps of
        [a, p, b, ba, sf, pt, x, y] \<Rightarrow>
          (case (sql_text a, sql_numeric p, sql_numeric b, sql_numeric ba, sql_numeric sf, sql_text pt,
                 wkt_point x y) of
             (Some a', Some p', Some b', Some ba', Some sf', Some pt', Some loc) \<Rightarrow>
               Some \<lparr>iv_address = a', iv_price = p', iv_bedrooms = b', iv_bathrooms = ba',
                      iv_square_feet = sf', iv_property_type = pt', iv_location = loc\<rparr>
           | _ \<Rightarrow> None)
      | _ \<Rightarrow> None)"

text \<open>
  Executing \<open>INSERT ... RETURNING id\<close>: \<open>nextval\<close> assigns the id and advances the
  sequence; a \<open>NULL\<close> address or price then violates \<open>NOT NULL\<close>, which aborts the
  row but not the sequence step (sequences are not rolled back). The new row takes the
  column defaults for \<open>listing_status\<close> and \<open>created_at\<close>.
\<close>

definition insert_row :: "db \<Rightarrow> insert_values \<Rightarrow> string \<Rightarrow> rat \<Rightarrow> prop_row" where
  "insert_row d v a p =
     \<lparr>pid = id_seq d, address = a, price = p, bedrooms = iv_bedrooms v, bathrooms = iv_bathrooms v,
      square_feet = iv_square_feet v, property_type = iv_property_type v,
      listing_status = status_default d, location = Some (iv_location v), created_at = clock d\<rparr>"

definition store_insert :: "db \<Rightarrow> insert_values \<Rightarrow> (exc + int) \<times> db" where
  "store_insert d v =
     (let d1 = d\<lparr>id_seq := id_seq d + 1\<rparr> in
      case (iv_address v, iv_price v) of
        (Some a, Some p) \<Rightarrow> (Inr (id_seq d), d1\<lparr>rows := rows d @ [insert_row d v a p]\<rparr>)
      | _ \<Rightarrow> (Inl (IntegrityError ''null value violates not-null constraint''), d1))"

subsection \<open>Column predicates\<close>

text \<open>
  What a bound filter says of a row, stated without parameters: a numeric column at
  least a number (\<open>NULL\<close> fails), at least a float, and the case-insensitive
  \<open>LIKE '%p%'\<close> the property-type filter sends.
\<close>

definition opt_ge :: "rat option \<Rightarrow> rat \<Rightarrow> bool" where
  "opt_ge c q = (case c of Some b \<Rightarrow> q \<le> b | None \<Rightarrow> False)"

fun float_le_col :: "pyfloat \<Rightarrow> rat option \<Rightarrow> bool" where
  "float_le_col (Fin q) c = opt_ge c q"
| "float_le_col NegInf c = (c \<noteq> None)"
| "float_le_col _ c = False"

definition ilike_col :: "string \<Rightarrow> string option \<Rightarrow> bool" where
  "ilike_col p c =
     (case c of
        Some s \<Rightarrow> like_match (CHR ''%'' # map ascii_lower p @ [CHR ''%'']) (map ascii_lower s)
      | None \<Rightarrow> False)"

text \<open>The ASCII characters that are special in a \<open>LIKE\<close> pattern.\<close>

definition like_special :: "char \<Rightarrow> bool" where
  "like_special c \<longleftrightarrow> c = CHR ''%'' \<or> c = CHR ''_'' \<or> c = CHR 0x5C"

subsection \<open>Sample data\<close>

text \<open>
  A small store the witnesses evaluate on: one active listing in San Francisco, a naive
  clock, and a taxicab distance standing for \<open>ST_Distance\<close> (the theorems hold for any
  \<open>st_distance\<close>; the sample only needs one that evaluates).
\<close>

definition sample_time :: datetime where
  "sample_time = \<lparr>year = 2024, month = 5, day = 17, hour = 9, minute = 30, second = 0,
     microsecond = 0, utcoffset = Some 0\<rparr>"

definition sample_row :: prop_row where
  "sample_row = \<lparr>pid = 1, address = ''1 Main St'', price = 500000, bedrooms = Some 3,
     bathrooms = Some 2, square_feet = None, property_type = Some ''House'',
     listing_status = Some ''active'', location = Some (- 1224194 / 10000, 377749 / 10000),
     created_at = sample_time\<rparr>"

definition taxicab :: "point \<Rightarrow> point \<Rightarrow> rat" where
  "taxicab p q = \<bar>fst p - fst q\<bar> + \<bar>snd p - snd q\<bar>"

definition sample_db :: db where
  "sample_db = \<lparr>rows = [sample_row], id_seq = 2, clock = sample_time, online = True,
     status_default = Some ''active'', pg_version = ''PostgreSQL 15.4'', db_name = ''properties'',
     db_user = ''app'', postgis_version = Some ''3.4 USE_GEOS=1 USE_PROJ=1 USE_STATS=1'',
     st_distance = taxicab\<rparr>"

subsection \<open>Lemmas\<close>

lemma float8_in_iff: "float8_in r = (if \<bar>r\<bar> < 2 ^ 1024 - 2 ^ 970 then Some r else None)"
  by (auto simp: float8_in_def float_round_def abs_less_iff)

lemma of_int_abs_less_numeral [simp]:
  "\<bar>(of_int i :: rat)\<bar> < numeral n \<longleftrightarrow> \<bar>i\<bar> < numeral n"
  by (simp only: of_int_abs [symmetric] of_int_less_numeral_iff)

lemma eval_cond_templates:
  "eval_cond active_cond [] = Some (\<lambda>r. listing_status r = Some ''active'')"
  "eval_cond ''price >= %s'' [v] = map_option (\<lambda>f r. f (Some (price r))) (num_ge v)"
  "eval_cond ''price <= %s'' [v] = map_option (\<lambda>f r. f (Some (price r))) (num_le v)"
  "eval_cond ''bedrooms >= %s'' [v] = map_option (\<lambda>f r. f (bedrooms r)) (num_ge v)"
  "eval_cond ''bathrooms >= %s'' [v] = map_option (\<lambda>f r. f (bathrooms r)) (num_ge v)"
  "eval_cond ''property_type ILIKE %s'' [v] = map_option (\<lambda>f r. f (property_type r)) (sql_ilike v)"
  by (simp_all add: eval_cond_def active_cond_def)

lemma count_ph_active_cond [simp]: "count_ph active_cond = 0"
  by (simp add: active_cond_def)

lemma bind_params_singletons:
  "\<forall>(t, v) \<in> set fs. count_ph t = 1 \<Longrightarrow>
   bind_params (map fst fs) (map snd fs @ rest) = Some (map (\<lambda>(t, v). (t, [v])) fs, rest)"
  by (induction fs) auto

lemma dangling_escape_snoc: "c \<noteq> CHR 0x5C \<Longrightarrow> \<not> dangling_escape (xs @ [c])"
  by (induction xs rule: dangling_escape.induct) auto

lemma num_ge_int: "num_ge (PInt m) = Some (\<lambda>c. opt_ge c (of_int m))"
  by (simp add: opt_ge_def fun_eq_iff)

lemma num_ge_float: "num_ge (PFloat f) = Some (float_le_col f)"
  by (cases f) (simp_all add: opt_ge_def fun_eq_iff)

lemma sql_limit_int:
  "sql_limit (PInt n) xs = (if n < 0 then Inl (DatabaseError ''LIMIT must not be negative'') else Inr (take (nat n) xs))"
  by simp

lemma like_any_Nil: "like_any [] s"
  by (induction s) simp_all

lemma like_match_literal_prefix:
  "\<not> list_ex like_special p \<Longrightarrow> like_match (p @ [CHR ''%'']) s \<longleftrightarrow> prefix p s"
proof (induction p arbitrary: s)
  case Nil
  then show ?case by (simp add: like_any_Nil)
next
  case (Cons c p)
  then have c: "c \<noteq> CHR ''%''" "c \<noteq> CHR ''_''" "c \<noteq> CHR 0x5C"
    by (auto simp: like_special_def)
  from Cons.prems have p: "\<not> list_ex like_special p" by simp
  show ?case using Cons.IH [OF p] c by (cases s) auto
qed

lemma like_any_literal_sublist:
  assumes "\<not> list_ex like_special p"
  shows "like_any (p @ [CHR ''%'']) s \<longleftrightarrow> sublist p s"
proof (induction s)
  case Nil
  then show ?case using like_match_literal_prefix [OF assms, of "[]"] by simp
next
  case (Cons d s)
  then show ?case using like_match_literal_prefix [OF assms, of "d # s"]
    by (simp add: sublist_Cons_right)
qed

lemma like_special_ascii_lower [simp]: "like_special (ascii_lower c) \<longleftrightarrow> like_special c"
  by (simp add: ascii_lower_def like_special_def)

lemma ilike_col_contains:
  "\<not> list_ex like_special p \<Longrightarrow>
   ilike_col p c \<longleftrightarrow> (case c of Some s \<Rightarrow> sublist (map ascii_lower p) (map ascii_lower s) | None \<Rightarrow> False)"
  by (simp add: ilike_col_def like_any_literal_sublist list_ex_iff split: option.split)

lemma count_ph_Cons_other [simp]: "c \<noteq> CHR ''%'' \<Longrightarrow> count_ph (c # xs) = count_ph xs"
  by (cases xs) auto

lemma count_ph_append:
  "xs = [] \<or> last xs \<noteq> CHR ''%'' \<Longrightarrow> count_ph (xs @ ys) = count_ph xs + count_ph ys"
proof (induction xs rule: count_ph.induct)
  case 1
  then show ?case by simp
next
  case (2 c d s)
  then show ?case by (cases s) (auto split: if_splits)
next
  case (3 c)
  then show ?case by (cases ys) auto
qed

lemma last_py_join:
  "xs \<noteq> [] \<Longrightarrow> \<forall>x\<in>set xs. x \<noteq> [] \<Longrightarrow> py_join sep xs \<noteq> [] \<and> last (py_join sep xs) = last (last xs)"
  by (induction sep xs rule: py_join.induct) auto

lemma count_ph_py_join:
  assumes "\<forall>x\<in>set xs. x \<noteq> [] \<and> last x \<noteq> CHR ''%''" and "sep \<noteq> []" and "last sep \<noteq> CHR ''%''"
  shows "count_ph (py_join sep xs) = sum_list (map count_ph xs) + (length xs - 1) * count_ph sep"
  using assms
proof (induction sep xs rule: py_join.induct)
  case (3 sep x y zs)
  have j: "py_join sep (y # zs) \<noteq> [] \<and> last (py_join sep (y # zs)) = last (last (y # zs))"
    using "3.prems"(1) by (intro last_py_join) auto
  have "count_ph (x @ sep @ py_join sep (y # zs)) = count_ph x + (count_ph sep + count_ph (py_join sep (y # zs)))"
    using "3.prems" by (simp add: count_ph_append)
  with "3.IH" "3.prems" show ?case by simp
qed auto

lemma take_prefix_sublist: "take (length sep) s = sep \<Longrightarrow> sublist sep s"
  by (metis append_take_drop_id sublist_append_rightI)

lemma split_first_None: "sep \<noteq> [] \<Longrightarrow> \<not> sublist sep s \<Longrightarrow> split_first sep s = None"
proof (induction s)
  case (Cons c s)
  then have "take (length sep) (c # s) \<noteq> sep" using take_prefix_sublist by blast
  with Cons show ?case by (simp add: sublist_Cons_right)
qed simp

lemma split_first_append:
  assumes "sep \<noteq> []" and "\<not> sublist sep (a @ butlast sep)"
  shows "split_first sep (a @ sep @ b) = Some (a, b)"
  using assms(2)
proof (induction a)
  case Nil
  from assms(1) obtain c s where "sep = c # s" by (cases sep) auto
  then show ?case by simp
next
  case (Cons c a)
  have "take (length sep) ((c # a) @ sep @ b) = take (length sep) ((c # a) @ butlast sep)"
  proof -
    have "sep = butlast sep @ [last sep]" using assms(1) by simp
    then have eq: "(c # a) @ sep @ b = ((c # a) @ butlast sep) @ (last sep # b)"
      by (metis append.assoc append_Cons append_Nil)
    have "length sep \<le> length ((c # a) @ butlast sep)" by simp
    then show ?thesis unfolding eq take_append by simp
  qed
  then have "take (length sep) ((c # a) @ sep @ b) \<noteq> sep"
    using Cons.prems take_prefix_sublist by metis
  moreover have "\<not> sublist sep (a @ butlast sep)"
    using Cons.prems by (metis append_Cons sublist_Cons_right)
  ultimately show ?case using Cons.IH by simp
qed

lemma split_on_no_sep: "\<not> sublist sep s \<Longrightarrow> split_on sep acc s = [acc @ s]"
proof (induction s arbitrary: acc)
  case (Cons c s)
  then have "\<not> (sep \<noteq> [] \<and> take (length sep) (c # s) = sep)"
    using take_prefix_sublist by (metis sublist_Nil_left)
  moreover have "\<not> sublist sep s" using Cons.prems by (simp add: sublist_Cons_right)
  ultimately show ?case using Cons.IH by simp
qed (simp add: sublist_Nil_right)

lemma split_on_append:
  assumes "sep \<noteq> []" and "\<not> sublist sep (a @ butlast sep)"
  shows "split_on sep acc (a @ sep @ b) = (acc @ a) # split_on sep [] b"
  using assms(2)
proof (induction a arbitrary: acc)
  case Nil
  from assms(1) obtain c s where "sep = c # s" by (cases sep) auto
  then show ?case by simp
next
  case (Cons c a)
  have "take (length sep) ((c # a) @ sep @ b) = take (length sep) ((c # a) @ butlast sep)"
  proof -
    have "sep = butlast sep @ [last sep]" using assms(1) by simp
    then have eq: "(c # a) @ sep @ b = ((c # a) @ butlast sep) @ (last sep # b)"
      by (metis append.assoc append_Cons append_Nil)
    have "length sep \<le> length ((c # a) @ butlast sep)" by simp
    then show ?thesis unfolding eq take_append by simp
  qed
  then have "take (length sep) ((c # a) @ sep @ b) \<noteq> sep"
    using Cons.prems take_prefix_sublist by metis
  moreover have "\<not> sublist sep (a @ butlast sep)"
    using Cons.prems by (metis append_Cons sublist_Cons_right)
  ultimately show ?case using Cons.IH by simp
qed

lemma split_on_py_join:
  assumes "sep \<noteq> []" and "xs \<noteq> []" and "\<forall>x\<in>set xs. \<not> sublist sep (x @ butlast sep)"
  shows "split_on sep [] (py_join sep xs) = xs"
  using assms(2,3)
proof (induction xs rule: induct_list012)
  case (2 x)
  then have "\<not> sublist sep (x @ butlast sep)" by simp
  then have "\<not> sublist sep x" by (meson sublist_append_rightI sublist_order.order.trans)
  then show ?case by (simp add: split_on_no_sep)
next
  case (3 x y zs)
  then show ?case using assms(1) by (simp add: split_on_append)
qed simp

lemma split_last_append:
  assumes "sep \<noteq> []" and "\<not> sublist (rev sep) (rev b @ butlast (rev sep))"
  shows "split_last sep (a @ sep @ b) = Some (a, b)"
proof -
  have "rev (a @ sep @ b) = rev b @ rev sep @ rev a" by simp
  with split_first_append [of "rev sep" "rev b" "rev a"] assms show ?thesis
    by (simp add: split_last_def)
qed

end
