(* ===== verification/Connection.thy ===== *)
theory Connection
  imports Store
begin

text \<open>
  The connection provider of \<open>src/app.py\<close>: the configuration read once at import
  (\<open>DATABASE_URL\<close>, whose absence stops the process before it serves anything) and
  \<open>get_db_connection\<close>, which opens a new connection per request and re-raises the
  driver's error when the store cannot be reached. A connection is used inside
  \<open>with conn:\<close>, which ends the transaction (commit on success, rollback on an
  exception); the model's handlers return the store after that transaction.
  \<open>process_start\<close> composes the import-time check with the \<open>__main__\<close> block; its
  theorem says exactly when the server starts and with which port and debug flag.
\<close>

record config =
  database_url :: string

definition load_config :: "string option \<Rightarrow> exc + config" where
  "load_config env_database_url =
     (case env_database_url of
        None \<Rightarrow> Inl (ValueError ''DATABASE_URL environment variable is required'')
      | Some u \<Rightarrow>
          if u = [] then Inl (ValueError ''DATABASE_URL environment variable is required'')
          else Inr \<lparr>database_url = u\<rparr>)"

definition get_db_connection :: "config \<Rightarrow> db \<Rightarrow> exc + unit" where
  "get_db_connection cfg d =
     (if online d then Inr () else Inl (OperationalError ''could not connect to server''))"

text \<open>
  The \<open>__main__\<close> block (lines 344-351): \<open>int(os.environ.get('PORT', 5000))\<close> and
  \<open>os.environ.get('FLASK_ENV') == 'development'\<close>; a \<open>PORT\<close> that is not an integer
  raises before the server starts.
\<close>

definition server_settings :: "(string \<Rightarrow> string option) \<Rightarrow> exc + int \<times> bool" where
  "server_settings env =
     exc_bind (py_int (case env ''PORT'' of None \<Rightarrow> PInt 5000 | Some s \<Rightarrow> PStr s)) (\<lambda>port.
     Inr (port, env ''FLASK_ENV'' = Some ''development''))"

text \<open>
  Starting the process with \<open>python app.py\<close>: the module body runs first (the
  \<open>DATABASE_URL\<close> check of lines 28-31 raises at import), then the \<open>__main__\<close>
  block reads the port and the debug flag; \<open>app.run\<close> itself is I/O.
\<close>

definition process_start :: "(string \<Rightarrow> string option) \<Rightarrow> exc + config \<times> int \<times> bool" where
  "process_start env =
     exc_bind (load_config (env ''DATABASE_URL'')) (\<lambda>cfg.
     exc_bind (server_settings env) (\<lambda>s. Inr (cfg, s)))"

text \<open>The configuration the witnesses run with.\<close>

definition sample_config :: config where
  "sample_config = \<lparr>database_url = ''postgresql://app@localhost/properties''\<rparr>"

lemma get_db_connection_ok [simp]: "online d \<Longrightarrow> get_db_connection cfg d = Inr ()"
  by (simp add: get_db_connection_def)

lemma get_db_connection_down [simp]:
  "\<not> online d \<Longrightarrow> get_db_connection cfg d = Inl (OperationalError ''could not connect to server'')"
  by (simp add: get_db_connection_def)

subsection \<open>Starting the server\<close>

text \<open>C28. The process starts serving exactly when \<open>DATABASE_URL\<close> is set and not empty
  (it becomes the configuration), \<open>PORT\<close> is unset (port 5000) or a string \<open>int()\<close>
  reads (that integer, with no range check), and then debug mode is on exactly when
  \<open>FLASK_ENV\<close> is \<open>development\<close>.\<close>

theorem process_start_iff:
  "process_start env = Inr (cfg, port, debug) \<longleftrightarrow>
     (\<exists>u. env ''DATABASE_URL'' = Some u \<and> u \<noteq> [] \<and> cfg = \<lparr>database_url = u\<rparr>)
     \<and> (case env ''PORT'' of None \<Rightarrow> port = 5000 | Some s \<Rightarrow> parse_int_str s = Some port)
     \<and> debug = (env ''FLASK_ENV'' = Some ''development'')"
  by (auto simp: process_start_def load_config_def server_settings_def exc_bind_def
      split: option.splits sum.splits if_splits)

end
