(* ===== verification/Search.thy ===== *)
theory Search
  imports Connection
begin

text \<open>
  The filtered search, \<open>search_properties\<close> in \<open>src/app.py\<close> (route
  \<open>/api/properties/search\<close>, lines 225-289): the typed query parameters, the limit,
  the dynamic query builder (conditions and parameters appended in step), the statement
  text, its execution by the store (which reads the text back), and the view function
  with its error path. The lemmas show that the statement text, with the parameters
  bound in order, selects exactly the active rows meeting every truthy filter, ordered
  by price and cut at the limit; that the view never fetches more than 100 rows; where
  the builder meets the spec and where it does not (zero filters, \<open>LIKE\<close> wildcards);
  that caller values never reach the statement text; and that the view function answers
  500 on every request.
\<close>

subsection \<open>The query builder\<close>

text \<open>\<open>if x: conditions.append(t); params.append(v)\<close>\<close>

definition add_cond :: "pyval \<Rightarrow> string \<Rightarrow> pyval \<Rightarrow> string list \<times> pyval list \<Rightarrow> string list \<times> pyval list" where
  "add_cond x t v cp = (if py_truthy x then (fst cp @ [t], snd cp @ [v]) else cp)"

text \<open>\<open>f"%{property_type}%"\<close>; \<open>None\<close> would print as \<open>None\<close>, but the branch that
  formats it is only taken for a non-empty string.\<close>

definition pct_wrap :: "string option \<Rightarrow> pyval" where
  "pct_wrap x = PStr (''%'' @ (case x of Some s \<Rightarrow> s | None \<Rightarrow> ''None'') @ ''%'')"

definition build_search ::
  "int option \<Rightarrow> int option \<Rightarrow> int option \<Rightarrow> pyfloat option \<Rightarrow> string option \<Rightarrow> int
   \<Rightarrow> string list \<times> pyval list" where
  "build_search price_min price_max bedrooms' bathrooms' property_type' limit =
     (let cp = ([active_cond], []);
          cp = add_cond (pv_int price_min) ''price >= %s'' (pv_int price_min) cp;
          cp = add_cond (pv_int price_max) ''price <= %s'' (pv_int price_max) cp;
          cp = add_cond (pv_int bedrooms') ''bedrooms >= %s'' (pv_int bedrooms') cp;
          cp = add_cond (pv_float bathrooms') ''bathrooms >= %s'' (pv_float bathrooms') cp;
          cp = add_cond (pv_str property_type') ''property_type ILIKE %s'' (pct_wrap property_type') cp
      in (fst cp, snd cp @ [PInt limit]))"

subsection \<open>The statement and its execution\<close>

definition search_sql :: "string list \<Rightarrow> string" where
  "search_sql conditions =
     ''SELECT id, address, price, bedrooms, bathrooms, square_feet, property_type, listing_status, ''
     @ ''ST_X(location) as longitude, ST_Y(location) as latitude, created_at FROM properties WHERE ''
     @ py_join '' AND '' conditions @ '' ORDER BY price ASC LIMIT %s;''"

text \<open>
  \<open>cur.execute(query, params); cur.fetchall()\<close>: psycopg2 first checks the number of
  placeholders of the whole text against the parameters and adapts each parameter;
  then the store reads the statement (\<open>parse_select\<close>), binds the parameters to the
  placeholders of its conditions in order and the last one to \<open>LIMIT\<close>, keeps the rows
  for which every condition holds, sorts them by the statement's \<open>ORDER BY\<close> and applies
  the limit.
\<close>

definition execute_search :: "db \<Rightarrow> string \<Rightarrow> pyval list \<Rightarrow> exc + prop_row list" where
  "execute_search d sql params =
     (if length params < count_ph sql then Inl (IndexError ''tuple index out of range'')
      else if count_ph sql < length params
      then Inl (TypeError ''not all arguments converted during string formatting'')
      else if list_ex has_nul params
      then Inl (ValueError ''A string literal cannot contain NUL (0x00) characters.'')
      else case parse_select sql of
        None \<Rightarrow> Inl (DatabaseError ''syntax error'')
      | Some (conditions, key, desc) \<Rightarrow>
          (case bind_params conditions params of
             Some (bound, [lv]) \<Rightarrow>
               (case those (map (\<lambda>(t, ps). eval_cond t ps) bound) of
                  None \<Rightarrow> Inl (DatabaseError ''syntax error'')
                | Some preds \<Rightarrow>
                    sql_limit lv (order_rows key desc (filter (\<lambda>r. list_all (\<lambda>P. P r) preds) (rows d))))
           | _ \<Rightarrow> Inl (DatabaseError ''syntax error'')))"

subsection \<open>The view function\<close>

text \<open>\<open>dict(prop)\<close> for a row of the search's column list; \<open>ST_X\<close> and \<open>ST_Y\<close> are
  \<open>float8\<close>, which psycopg2 returns as Python floats.\<close>

definition search_row_dict :: "prop_row \<Rightarrow> pyval" where
  "search_row_dict r = PDict
     [(''id'', PInt (pid r)), (''address'', PStr (address r)), (''price'', PDecimal (price r)),
      (''bedrooms'', pv_num (bedrooms r)), (''bathrooms'', pv_num (bathrooms r)),
      (''square_feet'', pv_num (square_feet r)), (''property_type'', pv_str (property_type r)),
      (''listing_status'', pv_str (listing_status r)),
      (''longitude'', pv_float (map_option (\<lambda>l. Fin (fst l)) (location r))),
      (''latitude'', pv_float (map_option (\<lambda>l. Fin (snd l)) (location r))),
      (''created_at'', PDatetime (created_at r))]"

definition search_failed :: response where
  "search_failed = \<lparr>status = 500, body = PDict [(''error'', PStr ''Search failed'')]\<rparr>"

text \<open>Line 233: \<open>limit = min(int(request.args.get('limit', 20)), 100)\<close>.\<close>

definition search_limit :: "query_args \<Rightarrow> exc + int" where
  "search_limit args = map_sum id (\<lambda>l. min l 100) (py_int (args_get args ''limit'' (PInt 20)))"

definition search_properties :: "config \<Rightarrow> query_args \<Rightarrow> db \<Rightarrow> response" where
  "search_properties cfg args d =
     (let price_min = args_get_int args ''price_min'';
          price_max = args_get_int args ''price_max'';
          bedrooms' = args_get_int args ''bedrooms'';
          bathrooms' = args_get_float args ''bathrooms'';
          property_type' = args_get_str args ''property_type''
      in case search_limit args of
           Inl e \<Rightarrow> search_failed
         | Inr limit \<Rightarrow>
             let (conditions, params) = build_search price_min price_max bedrooms' bathrooms' property_type' limit
             in case get_db_connection cfg d of
                  Inl e \<Rightarrow> search_failed
                | Inr _ \<Rightarrow>
                    (case execute_search d (search_sql conditions) params of
                       Inl e \<Rightarrow> search_failed
                     | Inr props \<Rightarrow>
                         (case jsonify
                                 [PDict [(''filters_applied'', PDict
                                           [(''price_range'', PList [pv_int price_min, pv_int price_max]),
                                            (''min_bedrooms'', pv_int bedrooms'),
                                            (''min_bathrooms'', pv_float bathrooms'),
                                            (''property_type'', pv_str property_type')]),
                                         (''total_found'', PInt (int (length props))),
                                         (''properties'', PList (map search_row_dict props))]]
                                 [(''default'', PCallable ''serialize_result'')] of
                            Inl e \<Rightarrow> search_failed
                          | Inr b \<Rightarrow> \<lparr>status = 200, body = b\<rparr>)))"

subsection \<open>Specifications\<close>

text \<open>
  What the statement selects, per row: the listing is active and every truthy filter
  holds (a filter given as \<open>0\<close>, \<open>0.0\<close> or the empty string is skipped, as
  \<open>if price_min:\<close> skips it).
\<close>

definition search_match ::
  "int option \<Rightarrow> int option \<Rightarrow> int option \<Rightarrow> pyfloat option \<Rightarrow> string option \<Rightarrow> prop_row \<Rightarrow> bool" where
  "search_match pmin pmax beds baths ptype r \<longleftrightarrow>
     listing_status r = Some ''active''
     \<and> (case pmin of None \<Rightarrow> True | Some m \<Rightarrow> m = 0 \<or> of_int m \<le> price r)
     \<and> (case pmax of None \<Rightarrow> True | Some m \<Rightarrow> m = 0 \<or> price r \<le> of_int m)
     \<and> (case beds of None \<Rightarrow> True | Some m \<Rightarrow> m = 0 \<or> opt_ge (bedrooms r) (of_int m))
     \<and> (case baths of None \<Rightarrow> True | Some f \<Rightarrow> f = Fin 0 \<or> float_le_col f (bathrooms r))
     \<and> (case ptype of None \<Rightarrow> True | Some p \<Rightarrow> p = [] \<or> ilike_col p (property_type r))"

text \<open>
  The spec's contract (sections 4.4 and 8): every supplied filter holds, conjunctively,
  and the property type is a case-insensitive substring.
\<close>

definition spec_search_match ::
  "int option \<Rightarrow> int option \<Rightarrow> int option \<Rightarrow> pyfloat option \<Rightarrow> string option \<Rightarrow> prop_row \<Rightarrow> bool" where
  "spec_search_match pmin pmax beds baths ptype r \<longleftrightarrow>
     listing_status r = Some ''active''
     \<and> (case pmin of None \<Rightarrow> True | Some m \<Rightarrow> of_int m \<le> price r)
     \<and> (case pmax of None \<Rightarrow> True | Some m \<Rightarrow> price r \<le> of_int m)
     \<and> (case beds of None \<Rightarrow> True | Some m \<Rightarrow> opt_ge (bedrooms r) (of_int m))
     \<and> (case baths of None \<Rightarrow> True | Some f \<Rightarrow> float_le_col f (bathrooms r))
     \<and> (case ptype of
            None \<Rightarrow> True
          | Some p \<Rightarrow> (case property_type r of
                         Some s \<Rightarrow> sublist (map ascii_lower p) (map ascii_lower s)
                       | None \<Rightarrow> False))"

text \<open>The conditions the builder appends, with their parameters, in order.\<close>

definition opt_filter :: "bool \<Rightarrow> string \<Rightarrow> pyval \<Rightarrow> (string \<times> pyval) list" where
  "opt_filter b t v = (if b then [(t, v)] else [])"

definition search_filters ::
  "int option \<Rightarrow> int option \<Rightarrow> int option \<Rightarrow> pyfloat option \<Rightarrow> string option \<Rightarrow> (string \<times> pyval) list" where
  "search_filters pmin pmax beds baths ptype =
     opt_filter (py_truthy (pv_int pmin)) ''price >= %s'' (pv_int pmin)
     @ opt_filter (py_truthy (pv_int pmax)) ''price <= %s'' (pv_int pmax)
     @ opt_filter (py_truthy (pv_int beds)) ''bedrooms >= %s'' (pv_int beds)
     @ opt_filter (py_truthy (pv_float baths)) ''bathrooms >= %s'' (pv_float baths)
     @ opt_filter (py_truthy (pv_str ptype)) ''property_type ILIKE %s'' (pct_wrap ptype)"

definition cond_holds :: "prop_row \<Rightarrow> string \<times> pyval list \<Rightarrow> bool" where
  "cond_holds r x = (case eval_cond (fst x) (snd x) of Some P \<Rightarrow> P r | None \<Rightarrow> False)"

definition cond_defined :: "string \<times> pyval list \<Rightarrow> bool" where
  "cond_defined x \<longleftrightarrow> eval_cond (fst x) (snd x) \<noteq> None"

declare search_properties_def [handler_defs]

subsection \<open>The builder, the binding and the statement\<close>

lemma add_cond_filter:
  "add_cond x t v (cs, ps) = (cs @ map fst (opt_filter (py_truthy x) t v), ps @ map snd (opt_filter (py_truthy x) t v))"
  by (simp add: add_cond_def opt_filter_def)

lemma build_search_filters:
  "build_search pmin pmax beds baths ptype limit =
     (active_cond # map fst (search_filters pmin pmax beds baths ptype),
      map snd (search_filters pmin pmax beds baths ptype) @ [PInt limit])"
  by (simp only: build_search_def Let_def add_cond_filter search_filters_def) simp

lemma count_ph_search_filters:
  "\<forall>(t, v) \<in> set (search_filters pmin pmax beds baths ptype). count_ph t = 1"
  by (auto simp: search_filters_def opt_filter_def)

lemma those_eval_Some:
  "list_all cond_defined xs \<Longrightarrow> \<exists>ps. those (map (\<lambda>(t, ps). eval_cond t ps) xs) = Some ps"
  by (induction xs) (auto simp: cond_defined_def)

lemma those_eval_list_all:
  "those (map (\<lambda>(t, ps). eval_cond t ps) xs) = Some ps \<Longrightarrow>
   list_all (\<lambda>P. P r) ps \<longleftrightarrow> list_all (cond_holds r) xs"
proof (induction xs arbitrary: ps)
  case Nil
  then show ?case by simp
next
  case (Cons a xs)
  then obtain P qs where "eval_cond (fst a) (snd a) = Some P" "those (map (\<lambda>(t, ps). eval_cond t ps) xs) = Some qs"
    "ps = P # qs"
    by (auto split: option.splits prod.splits)
  with Cons.IH show ?case by (simp add: cond_holds_def)
qed

lemma list_all_opt_filter:
  "list_all Q (map (\<lambda>(t, v). (t, [v])) (opt_filter b t v)) \<longleftrightarrow> (b \<longrightarrow> Q (t, [v]))"
  by (simp add: opt_filter_def)

lemma sql_ilike_pct: "sql_ilike (pct_wrap (Some p)) = Some (ilike_col p)"
proof -
  have "\<not> dangling_escape ((CHR ''%'' # p) @ [CHR ''%''])" by (rule dangling_escape_snoc) simp
  then show ?thesis by (simp add: sql_ilike_def pct_wrap_def ilike_col_def fun_eq_iff split: option.split)
qed

lemmas search_filter_unfold = search_filters_def list.map map_append list_all_append list_all_opt_filter
  list.pred_inject(1)

lemma search_bound_ok:
  "list_all cond_defined ((active_cond, []) # map (\<lambda>(t, v). (t, [v])) (search_filters pmin pmax beds baths ptype))"
  unfolding search_filter_unfold list.pred_inject(2) prod.case
  by (cases ptype) (simp_all add: cond_defined_def eval_cond_templates pv_int_def pv_float_def
      sql_ilike_pct num_ge_float split: option.split)

lemma search_bound_sem:
  "list_all (cond_holds r) ((active_cond, []) # map (\<lambda>(t, v). (t, [v])) (search_filters pmin pmax beds baths ptype))
   \<longleftrightarrow> search_match pmin pmax beds baths ptype r"
proof -
  have a: "(py_truthy (pv_int pmin) \<longrightarrow> cond_holds r (''price >= %s'', [pv_int pmin]))
      \<longleftrightarrow> (case pmin of None \<Rightarrow> True | Some m \<Rightarrow> m = 0 \<or> of_int m \<le> price r)"
    by (cases pmin) (auto simp: cond_holds_def eval_cond_templates pv_int_def)
  have b: "(py_truthy (pv_int pmax) \<longrightarrow> cond_holds r (''price <= %s'', [pv_int pmax]))
      \<longleftrightarrow> (case pmax of None \<Rightarrow> True | Some m \<Rightarrow> m = 0 \<or> price r \<le> of_int m)"
    by (cases pmax) (auto simp: cond_holds_def eval_cond_templates pv_int_def)
  have c: "(py_truthy (pv_int beds) \<longrightarrow> cond_holds r (''bedrooms >= %s'', [pv_int beds]))
      \<longleftrightarrow> (case beds of None \<Rightarrow> True | Some m \<Rightarrow> m = 0 \<or> opt_ge (bedrooms r) (of_int m))"
    by (cases beds) (auto simp: cond_holds_def eval_cond_templates pv_int_def num_ge_int opt_ge_def)
  have d: "(py_truthy (pv_float baths) \<longrightarrow> cond_holds r (''bathrooms >= %s'', [pv_float baths]))
      \<longleftrightarrow> (case baths of None \<Rightarrow> True | Some f \<Rightarrow> f = Fin 0 \<or> float_le_col f (bathrooms r))"
    by (cases baths) (auto simp: cond_holds_def eval_cond_templates pv_float_def num_ge_float)
  have e: "(py_truthy (pv_str ptype) \<longrightarrow> cond_holds r (''property_type ILIKE %s'', [pct_wrap ptype]))
      \<longleftrightarrow> (case ptype of None \<Rightarrow> True | Some p \<Rightarrow> p = [] \<or> ilike_col p (property_type r))"
    by (cases ptype) (auto simp: cond_holds_def eval_cond_templates sql_ilike_pct)
  have act: "cond_holds r (active_cond, []) \<longleftrightarrow> listing_status r = Some ''active''"
    by (simp add: cond_holds_def eval_cond_templates)
  show ?thesis
    unfolding search_filter_unfold search_match_def list.pred_inject(2) prod.case a b c d e act ..
qed

lemma search_conditions_no_and:
  "\<forall>x\<in>set (fst (build_search pmin pmax beds baths ptype limit)). \<not> sublist '' AND '' (x @ butlast '' AND '')"
  by (auto simp: build_search_filters search_filters_def opt_filter_def active_cond_def sublist_Cons_right)

lemma search_conditions_shape:
  "\<forall>x\<in>set (fst (build_search pmin pmax beds baths ptype limit)). x \<noteq> [] \<and> last x \<noteq> CHR ''%''"
  by (auto simp: build_search_filters search_filters_def opt_filter_def active_cond_def)

text \<open>The store reads back, from the statement text, the conditions it was built from.\<close>

lemma parse_select_search_sql:
  assumes "cs \<noteq> []" and "\<forall>x\<in>set cs. \<not> sublist '' AND '' (x @ butlast '' AND '')"
  shows "parse_select (search_sql cs) = Some (cs, price, False)"
proof -
  let ?sel = "''SELECT id, address, price, bedrooms, bathrooms, square_feet, property_type, listing_status, ''
     @ ''ST_X(location) as longitude, ST_Y(location) as latitude, created_at''"
  let ?w = "py_join '' AND '' cs"
  have sql: "search_sql cs = ?sel @ '' FROM properties WHERE '' @ (?w @ '' ORDER BY '' @ ''price ASC LIMIT %s;'')"
    by (simp add: search_sql_def)
  have f: "split_first '' FROM properties WHERE '' (search_sql cs)
      = Some (?sel, ?w @ '' ORDER BY '' @ ''price ASC LIMIT %s;'')"
    unfolding sql by (rule split_first_append) (simp_all add: sublist_Cons_right)
  have l: "split_last '' ORDER BY '' (?w @ '' ORDER BY '' @ ''price ASC LIMIT %s;'') = Some (?w, ''price ASC LIMIT %s;'')"
    by (rule split_last_append) (simp_all add: sublist_Cons_right)
  have o: "parse_order ''price ASC LIMIT %s;'' = Some (price, False)"
    by (simp add: parse_order_def order_key_def)
  have "split_on '' AND '' [] ?w = cs" using assms by (intro split_on_py_join) simp_all
  with f l o show ?thesis by (simp add: parse_select_def)
qed

lemma search_sql_count_ph:
  assumes "cs \<noteq> []" and "\<forall>x\<in>set cs. x \<noteq> [] \<and> last x \<noteq> CHR ''%''"
  shows "count_ph (search_sql cs) = sum_list (map count_ph cs) + 1"
proof -
  have j: "py_join '' AND '' cs \<noteq> [] \<and> last (py_join '' AND '' cs) = last (last cs)"
    using assms by (intro last_py_join) auto
  have "last cs \<in> set cs" using assms(1) by (rule last_in_set)
  then have lj: "last (py_join '' AND '' cs) \<noteq> CHR ''%''" using j assms(2) by auto
  have "count_ph (py_join '' AND '' cs) = sum_list (map count_ph cs)"
    using assms(2) by (simp add: count_ph_py_join)
  with lj show ?thesis unfolding search_sql_def by (simp add: count_ph_append)
qed

lemma build_search_ph_sum:
  "sum_list (map count_ph (fst (build_search pmin pmax beds baths ptype limit))) + 1
   = length (snd (build_search pmin pmax beds baths ptype limit))"
  using count_ph_search_filters by (simp add: build_search_filters sum_list_map_one split_def)

lemma search_params_nul:
  "list_ex has_nul (snd (build_search pmin pmax beds baths ptype limit)) \<longleftrightarrow> (\<exists>p. ptype = Some p \<and> CHR 0x00 \<in> set p)"
  by (auto simp: build_search_filters search_filters_def opt_filter_def pv_int_def pv_float_def pv_str_def
      pct_wrap_def split: option.splits)

text \<open>What the statement the builder produces returns, for every input.\<close>

lemma execute_build_search:
  "execute_search d (search_sql (fst (build_search pmin pmax beds baths ptype limit)))
     (snd (build_search pmin pmax beds baths ptype limit))
   = (if \<exists>p. ptype = Some p \<and> CHR 0x00 \<in> set p
      then Inl (ValueError ''A string literal cannot contain NUL (0x00) characters.'')
      else sql_limit (PInt limit) (sort_key price (filter (search_match pmin pmax beds baths ptype) (rows d))))"
proof -
  let ?B = "build_search pmin pmax beds baths ptype limit"
  let ?fs = "search_filters pmin pmax beds baths ptype"
  let ?bound = "(active_cond, []) # map (\<lambda>(t, v). (t, [v])) ?fs"
  have ne: "fst ?B \<noteq> []" by (simp add: build_search_filters)
  have cnt: "count_ph (search_sql (fst ?B)) = length (snd ?B)"
    using search_sql_count_ph [OF ne search_conditions_shape] build_search_ph_sum by simp
  have ps: "parse_select (search_sql (fst ?B)) = Some (fst ?B, price, False)"
    by (rule parse_select_search_sql [OF ne search_conditions_no_and])
  have bind: "bind_params (fst ?B) (snd ?B) = Some (?bound, [PInt limit])"
    using bind_params_singletons [OF count_ph_search_filters] by (simp add: build_search_filters)
  obtain qs where qs: "those (map (\<lambda>(t, ps). eval_cond t ps) ?bound) = Some qs"
    using those_eval_Some [OF search_bound_ok] by blast
  have "filter (\<lambda>r. list_all (\<lambda>P. P r) qs) (rows d) = filter (search_match pmin pmax beds baths ptype) (rows d)"
    using those_eval_list_all [OF qs] search_bound_sem by simp
  with cnt ps bind qs show ?thesis
    unfolding execute_search_def search_params_nul by (simp add: order_rows_def)
qed

lemma sample_search: "search_match (Some 100000) None (Some 2) None (Some ''hou'') sample_row"
  by (simp add: search_match_def sample_row_def opt_ge_def ilike_col_def ascii_lower_def)

lemma sample_search_rows:
  "execute_search sample_db (search_sql (fst (build_search (Some 100000) None (Some 2) None (Some ''hou'') 10)))
     (snd (build_search (Some 100000) None (Some 2) None (Some ''hou'') 10)) = Inr [sample_row]"
  using sample_search by (simp add: execute_build_search sample_db_def)

lemma search_match_spec:
  assumes "pmin \<noteq> Some 0" and "pmax \<noteq> Some 0" and "beds \<noteq> Some 0" and "baths \<noteq> Some (Fin 0)"
    and "case ptype of None \<Rightarrow> True | Some p \<Rightarrow> p \<noteq> [] \<and> \<not> list_ex like_special p"
  shows "search_match pmin pmax beds baths ptype = spec_search_match pmin pmax beds baths ptype"
  using assms
  by (auto simp: fun_eq_iff search_match_def spec_search_match_def ilike_col_contains split: option.splits)

lemma ascii_lower_backslash_iff: "ascii_lower c = CHR 0x5C \<longleftrightarrow> c = CHR 0x5C"
  by (auto simp: ascii_lower_def)

lemma ascii_lower_underscore_iff: "ascii_lower c = CHR ''_'' \<longleftrightarrow> c = CHR ''_''"
  by (auto simp: ascii_lower_def)

lemma ascii_lower_x: "ascii_lower CHR ''x'' = CHR ''x''"
  by (simp add: ascii_lower_def)

lemma like_any_of_match: "like_match p s \<Longrightarrow> like_any p s"
  by (cases s) simp_all

text \<open>A pattern without backslash matches the text that replaces each \<open>_\<close> of it by
  \<open>x\<close> and keeps every other character, \<open>%\<close> included.\<close>

lemma like_match_wildcards:
  "CHR 0x5C \<notin> set p \<Longrightarrow> like_match q r \<Longrightarrow>
   like_match (p @ q) (map (\<lambda>c. if c = CHR ''_'' then CHR ''x'' else c) p @ r)"
proof (induction p)
  case (Cons c p)
  then show ?case by (cases "c = CHR ''%''") (auto simp: like_any_of_match)
qed simp

lemma sublist_same_length: "sublist xs ys \<Longrightarrow> length xs = length ys \<Longrightarrow> xs = ys"
  by (auto simp: sublist_def)

subsection \<open>Results of the statement\<close>

text \<open>C1. The filtered-search statement text the builder produces, with its parameters
  bound in the order they were appended, returns the active rows meeting every truthy
  filter, ordered by price and cut at the limit; a property-type text with a NUL
  character is refused by psycopg2, and a negative limit by the store.\<close>

theorem search_statement_refines:
  "execute_search d (search_sql (fst (build_search pmin pmax beds baths ptype limit)))
     (snd (build_search pmin pmax beds baths ptype limit))
   = (if \<exists>p. ptype = Some p \<and> CHR 0x00 \<in> set p
      then Inl (ValueError ''A string literal cannot contain NUL (0x00) characters.'')
      else if limit < 0 then Inl (DatabaseError ''LIMIT must not be negative'')
      else Inr (take (nat limit) (sort_key price (filter (search_match pmin pmax beds baths ptype) (rows d)))))"
  by (simp add: execute_build_search)

text \<open>C2. The statement text has exactly one placeholder per bound parameter: one for each
  appended condition and one for \<open>LIMIT\<close>, so psycopg2's positional binding never
  runs short or over.\<close>

theorem search_placeholders_match:
  "count_ph (search_sql (fst (build_search pmin pmax beds baths ptype limit)))
   = length (snd (build_search pmin pmax beds baths ptype limit))"
proof -
  have ne: "fst (build_search pmin pmax beds baths ptype limit) \<noteq> []" by (simp add: build_search_filters)
  from search_sql_count_ph [OF ne search_conditions_shape] build_search_ph_sum show ?thesis by simp
qed

text \<open>C3. Every row the search statement returns is a row of the table that is active and
  meets every truthy filter.\<close>

theorem search_results_sound:
  assumes "execute_search d (search_sql (fst (build_search pmin pmax beds baths ptype limit)))
             (snd (build_search pmin pmax beds baths ptype limit)) = Inr rs"
    and "r \<in> set rs"
  shows "r \<in> set (rows d) \<and> search_match pmin pmax beds baths ptype r"
  using assms by (auto simp: execute_build_search split: if_splits dest: take_sort_key_filter_mem)

theorem search_results_sound_witness:
  "execute_search sample_db (search_sql (fst (build_search (Some 100000) None (Some 2) None (Some ''hou'') 10)))
     (snd (build_search (Some 100000) None (Some 2) None (Some ''hou'') 10)) = Inr [sample_row]
   \<and> sample_row \<in> set [sample_row]
   \<and> sample_row \<in> set (rows sample_db) \<and> search_match (Some 100000) None (Some 2) None (Some ''hou'') sample_row"
  using search_results_sound [OF sample_search_rows, of sample_row] sample_search_rows by simp

text \<open>C4. The limit the view computes, \<open>min(int(limit), 100)\<close> with default 20, is at
  most 100, and the statement built with it returns at most that many rows: a search
  never fetches more than 100 rows, whatever the caller asks for.\<close>

theorem search_rows_bounded:
  assumes "search_limit args = Inr cap"
    and "execute_search d (search_sql (fst (build_search pmin pmax beds baths ptype cap)))
           (snd (build_search pmin pmax beds baths ptype cap)) = Inr rs"
  shows "cap \<le> 100 \<and> length rs \<le> nat cap \<and> length rs \<le> 100"
proof -
  have "cap \<le> 100" using assms(1)
    by (cases "py_int (args_get args ''limit'' (PInt 20))") (auto simp: search_limit_def)
  moreover have "length rs \<le> nat cap" using assms(2) by (auto simp: execute_build_search split: if_splits)
  ultimately show ?thesis by simp
qed

theorem search_rows_bounded_witness:
  "search_limit [] = Inr 20
   \<and> execute_search sample_db (search_sql (fst (build_search (Some 100000) None (Some 2) None (Some ''hou'') 20)))
       (snd (build_search (Some 100000) None (Some 2) None (Some ''hou'') 20)) = Inr [sample_row]
   \<and> length [sample_row] \<le> 100"
proof -
  have l: "search_limit [] = Inr 20" by (simp add: search_limit_def args_get_def)
  have e: "execute_search sample_db (search_sql (fst (build_search (Some 100000) None (Some 2) None (Some ''hou'') 20)))
       (snd (build_search (Some 100000) None (Some 2) None (Some ''hou'') 20)) = Inr [sample_row]"
    using sample_search by (simp add: execute_build_search sample_db_def)
  from search_rows_bounded [OF l e] l e show ?thesis by simp
qed

text \<open>C5. When no numeric filter is given as zero and the property-type text is non-empty
  and free of \<open>%\<close>, \<open>_\<close>, backslash and NUL, the statement the builder produces, with
  a limit that is not negative, returns exactly the rows the spec describes (every
  supplied filter holds, the listing is active, the type is a case-insensitive
  substring), ordered by price and cut at the limit.\<close>

theorem search_meets_spec:
  assumes "pmin \<noteq> Some 0" and "pmax \<noteq> Some 0" and "beds \<noteq> Some 0" and "baths \<noteq> Some (Fin 0)"
    and "case ptype of None \<Rightarrow> True | Some p \<Rightarrow> p \<noteq> [] \<and> \<not> list_ex like_special p \<and> CHR 0x00 \<notin> set p"
    and "0 \<le> limit"
  shows "execute_search d (search_sql (fst (build_search pmin pmax beds baths ptype limit)))
           (snd (build_search pmin pmax beds baths ptype limit))
         = Inr (take (nat limit) (sort_key price (filter (spec_search_match pmin pmax beds baths ptype) (rows d))))"
proof -
  have "search_match pmin pmax beds baths ptype = spec_search_match pmin pmax beds baths ptype"
    using assms(1-5) by (intro search_match_spec) (auto split: option.splits)
  moreover have "\<not> (\<exists>p. ptype = Some p \<and> CHR 0x00 \<in> set p)" using assms(5) by (auto split: option.splits)
  ultimately show ?thesis using assms(6) by (simp add: execute_build_search)
qed

theorem search_meets_spec_witness:
  "Some (100000::int) \<noteq> Some 0 \<and> (None::int option) \<noteq> Some 0 \<and> Some (2::int) \<noteq> Some 0
   \<and> (None::pyfloat option) \<noteq> Some (Fin 0)
   \<and> ''hou'' \<noteq> [] \<and> \<not> list_ex like_special ''hou'' \<and> CHR 0x00 \<notin> set ''hou'' \<and> (0::int) \<le> 10
   \<and> execute_search sample_db (search_sql (fst (build_search (Some 100000) None (Some 2) None (Some ''hou'') 10)))
       (snd (build_search (Some 100000) None (Some 2) None (Some ''hou'') 10))
     = Inr (take (nat 10) (sort_key price
         (filter (spec_search_match (Some 100000) None (Some 2) None (Some ''hou'')) (rows sample_db))))"
  using search_meets_spec [of "Some 100000" None "Some 2" None "Some ''hou''" 10 sample_db]
  by (simp add: like_special_def)

text \<open>C6. A numeric filter given as 0 (or 0.0) and an empty property-type text add no
  condition and no parameter: the builder produces the same statement and parameters as
  when the filter is absent (\<open>if price_max:\<close> tests truthiness; the spec asks, e.g.,
  for \<open>price \<le> 0\<close>).\<close>

theorem search_zero_filters_ignored:
  "build_search (Some 0) pmax beds baths ptype l = build_search None pmax beds baths ptype l
   \<and> build_search pmin (Some 0) beds baths ptype l = build_search pmin None beds baths ptype l
   \<and> build_search pmin pmax (Some 0) baths ptype l = build_search pmin pmax None baths ptype l
   \<and> build_search pmin pmax beds (Some (Fin 0)) ptype l = build_search pmin pmax beds None ptype l
   \<and> build_search pmin pmax beds baths (Some []) l = build_search pmin pmax beds baths None l"
  by (simp add: build_search_def add_cond_def Let_def)

text \<open>C7. The property-type filter is not substring matching: for every type text with a
  \<open>_\<close> (and no backslash), the \<open>ILIKE\<close> condition built from \<open>%text%\<close> accepts a
  column value that does not contain the text, even up to case (the value with each
  \<open>_\<close> replaced by \<open>x\<close>).\<close>

theorem search_wildcard_not_substring:
  assumes "CHR ''_'' \<in> set t" and "CHR 0x5C \<notin> set t"
  shows "\<exists>h s. sql_ilike (pct_wrap (Some t)) = Some h \<and> h (Some s)
           \<and> \<not> sublist (map ascii_lower t) (map ascii_lower s)"
proof -
  let ?f = "\<lambda>c. if c = CHR ''_'' then CHR ''x'' else c"
  let ?lt = "map ascii_lower t"
  have low: "map ascii_lower (map ?f t) = map ?f ?lt"
    by (simp add: ascii_lower_underscore_iff ascii_lower_x)
  have nb: "CHR 0x5C \<notin> set ?lt"
  proof
    assume "CHR 0x5C \<in> set ?lt"
    then obtain x where "x \<in> set t" and "CHR 0x5C = ascii_lower x" by (metis imageE set_map)
    then show False using assms(2) ascii_lower_backslash_iff by metis
  qed
  have "like_match (?lt @ [CHR ''%'']) (map ?f ?lt @ [])"
    using like_match_wildcards [OF nb, of "[CHR ''%'']" "[]"] by simp
  then have "like_any (?lt @ [CHR ''%'']) (map ?f ?lt)" by (simp add: like_any_of_match)
  then have m: "ilike_col t (Some (map ?f t))"
    unfolding ilike_col_def option.case low by simp
  have "CHR ''_'' \<in> set ?lt" using assms(1) by force
  moreover have "CHR ''_'' \<notin> set (map ?f ?lt)" by auto
  ultimately have "?lt \<noteq> map ?f ?lt" by metis
  then have "\<not> sublist ?lt (map ascii_lower (map ?f t))"
    using sublist_same_length by (metis length_map low)
  with m show ?thesis by (auto simp: sql_ilike_pct)
qed

theorem search_wildcard_not_substring_witness:
  "CHR ''_'' \<in> set ''a_c'' \<and> CHR 0x5C \<notin> set ''a_c''
   \<and> (\<exists>h s. sql_ilike (pct_wrap (Some ''a_c'')) = Some h \<and> h (Some s)
        \<and> \<not> sublist (map ascii_lower ''a_c'') (map ascii_lower s))"
  using search_wildcard_not_substring [of "''a_c''"] by simp

subsection \<open>The view function\<close>

text \<open>C8. The search view answers every request with status 500 and
  \<open>{"error": "Search failed"}\<close>: the success path calls \<open>jsonify\<close> with both a
  positional argument and \<open>default=\<close>, which raises \<open>TypeError\<close>, and every other path
  is an error path.\<close>

theorem search_properties_always_fails: "search_properties cfg args d = search_failed"
  by (simp add: search_properties_def jsonify_def Let_def split: sum.split prod.split)

text \<open>C9. The caller's values never reach the statement text, only its parameters: two
  requests whose filters are truthy in the same places send the same SQL text, whatever
  the values and the limit, so a property-type text cannot change the statement.\<close>

theorem search_text_independent_of_values:
  assumes "py_truthy (pv_int pmin) = py_truthy (pv_int pmin')"
    and "py_truthy (pv_int pmax) = py_truthy (pv_int pmax')"
    and "py_truthy (pv_int beds) = py_truthy (pv_int beds')"
    and "py_truthy (pv_float baths) = py_truthy (pv_float baths')"
    and "py_truthy (pv_str ptype) = py_truthy (pv_str ptype')"
  shows "search_sql (fst (build_search pmin pmax beds baths ptype l))
       = search_sql (fst (build_search pmin' pmax' beds' baths' ptype' l'))"
  using assms by (simp only: build_search_filters search_filters_def opt_filter_def fst_conv map_append)
    (simp del: py_truthy_pv)

theorem search_text_independent_of_values_witness:
  "py_truthy (pv_int (Some 100000)) = py_truthy (pv_int (Some 5))
   \<and> py_truthy (pv_int None) = py_truthy (pv_int None)
   \<and> py_truthy (pv_int (Some 2)) = py_truthy (pv_int (Some 7))
   \<and> py_truthy (pv_float None) = py_truthy (pv_float None)
   \<and> py_truthy (pv_str (Some ''hou'')) = py_truthy (pv_str (Some ''x' OR 1=1 --''))
   \<and> search_sql (fst (build_search (Some 100000) None (Some 2) None (Some ''hou'') 10))
     = search_sql (fst (build_search (Some 5) None (Some 7) None (Some ''x' OR 1=1 --'') 100))"
  using search_text_independent_of_values [of "Some 100000" "Some 5" None None "Some 2" "Some 7" None None
      "Some ''hou''" "Some ''x' OR 1=1 --''" 10 100]
  by simp

end
