(* ===== verification/Nearby.thy ===== *)
theory Nearby
  imports Connection
begin

text \<open>
  The radius search, \<open>find_nearby_properties\<close> in \<open>src/app.py\<close> (route
  \<open>/api/properties/nearby\<close>, lines 171-223): conversion of \<open>lat\<close>, \<open>lng\<close>,
  \<open>radius\<close> and \<open>limit\<close>, the statement with its six positional parameters, its
  execution by the store (rows with a location within the radius, with their distance,
  nearest first, cut at the limit) and the view function with its two \<open>except\<close>
  clauses. The lemmas show what the statement returns (errors included: non-finite
  coordinates, a radius out of the \<open>float8\<close> range or negative, a negative limit),
  that it is sound and complete, that the view's limit caps it at 100 rows, and which
  status the view answers.
\<close>

subsection \<open>The statement and its execution\<close>

definition nearby_sql :: string where
  "nearby_sql =
     ''SELECT id, address, price, bedrooms, bathrooms, square_feet, property_type, listing_status, ''
     @ ''ST_X(location) as longitude, ST_Y(location) as latitude, ''
     @ ''ST_Distance(location, ST_GeomFromText('' @ sql_quote ''POINT(%s %s)'' @ '', 4326)) as distance_meters, ''
     @ ''created_at FROM properties WHERE location IS NOT NULL AND ''
     @ ''ST_DWithin(location, ST_GeomFromText('' @ sql_quote ''POINT(%s %s)'' @ '', 4326), %s) ''
     @ ''ORDER BY distance_meters LIMIT %s;''"

text \<open>\<open>(lng, lat, lng, lat, radius, limit)\<close>, line 208.\<close>

definition nearby_params :: "pyfloat \<Rightarrow> pyfloat \<Rightarrow> int \<Rightarrow> int \<Rightarrow> pyval list" where
  "nearby_params lat lng radius limit =
     [PFloat lng, PFloat lat, PFloat lng, PFloat lat, PInt radius, PInt limit]"

text \<open>The distance argument of \<open>ST_DWithin\<close>: a number within the range of \<open>float8\<close>.\<close>

fun sql_dist_param :: "pyval \<Rightarrow> rat option" where
  "sql_dist_param (PInt i) = float8_in (of_int i)"
| "sql_dist_param (PFloat (Fin r)) = Some r"
| "sql_dist_param (PDecimal r) = float8_in r"
| "sql_dist_param _ = None"

definition within_radius :: "(point \<Rightarrow> point \<Rightarrow> rat) \<Rightarrow> point \<Rightarrow> rat \<Rightarrow> prop_row \<Rightarrow> bool" where
  "within_radius dst q rad r = (case location r of Some l \<Rightarrow> dst l q \<le> rad | None \<Rightarrow> False)"

definition row_distance :: "(point \<Rightarrow> point \<Rightarrow> rat) \<Rightarrow> point \<Rightarrow> prop_row \<Rightarrow> rat" where
  "row_distance dst p r = (case location r of Some l \<Rightarrow> dst l p | None \<Rightarrow> 0)"

text \<open>
  \<open>WHERE location IS NOT NULL AND ST_DWithin(location, q, radius)\<close>, each row with
  \<open>ST_Distance(location, p)\<close>, \<open>ORDER BY distance_meters\<close> (rows at equal distance in
  table order).
\<close>

definition nearby_rows ::
  "(point \<Rightarrow> point \<Rightarrow> rat) \<Rightarrow> point \<Rightarrow> point \<Rightarrow> rat \<Rightarrow> prop_row list \<Rightarrow> (prop_row \<times> rat) list" where
  "nearby_rows dst p q rad rs =
     sort_key snd (map (\<lambda>r. (r, row_distance dst p r)) (filter (within_radius dst q rad) rs))"

text \<open>
  The execution: the radius literal is converted to \<open>float8\<close> when the statement is
  planned, a negative \<open>LIMIT\<close> is refused before any row is read, and PostGIS's
  \<open>ST_DWithin\<close> raises "Tolerance cannot be less than zero" as soon as it is evaluated
  on a located row with a negative radius; with \<open>LIMIT 0\<close> no row is read. (This is
  the sequential scan; an index scan may skip the evaluation.)
\<close>

definition execute_nearby :: "db \<Rightarrow> pyval list \<Rightarrow> exc + (prop_row \<times> rat) list" where
  "execute_nearby d params =
     (if length params < count_ph nearby_sql then Inl (IndexError ''tuple index out of range'')
      else if count_ph nearby_sql < length params
      then Inl (TypeError ''not all arguments converted during string formatting'')
      else case params of
        [x1, y1, x2, y2, rad, lv] \<Rightarrow>
          (case (wkt_point x1 y1, wkt_point x2 y2) of
             (Some p, Some q) \<Rightarrow>
               (case sql_dist_param rad of
                  Some r \<Rightarrow>
                    (case sql_limit lv (nearby_rows (st_distance d) p q r (rows d)) of
                       Inl e \<Rightarrow> Inl e
                     | Inr res \<Rightarrow>
                         if r < 0 \<and> lv \<noteq> PInt 0 \<and> list_ex (\<lambda>x. location x \<noteq> None) (rows d)
                         then Inl (DatabaseError ''Tolerance cannot be less than zero'')
                         else Inr res)
                | None \<Rightarrow> Inl (DatabaseError ''value out of range for type double precision''))
           | _ \<Rightarrow> Inl (DatabaseError ''parse error - invalid geometry''))
      | _ \<Rightarrow> Inl (TypeError ''not all arguments converted during string formatting''))"

subsection \<open>The view function\<close>

definition nearby_row_dict :: "prop_row \<times> rat \<Rightarrow> pyval" where
  "nearby_row_dict rd = (case rd of (r, dst) \<Rightarrow> PDict
     [(''id'', PInt (pid r)), (''address'', PStr (address r)), (''price'', PDecimal (price r)),
      (''bedrooms'', pv_num (bedrooms r)), (''bathrooms'', pv_num (bathrooms r)),
      (''square_feet'', pv_num (square_feet r)), (''property_type'', pv_str (property_type r)),
      (''listing_status'', pv_str (listing_status r)),
      (''longitude'', pv_float (map_option (\<lambda>l. Fin (fst l)) (location r))),
      (''latitude'', pv_float (map_option (\<lambda>l. Fin (snd l)) (location r))),
      (''distance_meters'', PFloat (Fin dst)),
      (''created_at'', PDatetime (created_at r))])"

definition nearby_invalid :: response where
  "nearby_invalid = \<lparr>status = 400, body = PDict [(''error'', PStr ''Invalid coordinates or radius'')]\<rparr>"

definition nearby_failed :: response where
  "nearby_failed = \<lparr>status = 500, body = PDict [(''error'', PStr ''Search failed'')]\<rparr>"

text \<open>Lines 175-178: the four conversions; the first that raises ends the block.\<close>

definition nearby_args :: "query_args \<Rightarrow> exc + pyfloat \<times> pyfloat \<times> int \<times> int" where
  "nearby_args args =
     exc_bind (py_float (args_get args ''lat'' (PFloat (Fin (377749 / 10000))))) (\<lambda>lat.
     exc_bind (py_float (args_get args ''lng'' (PFloat (Fin (- 1224194 / 10000))))) (\<lambda>lng.
     exc_bind (py_int (args_get args ''radius'' (PInt 1000))) (\<lambda>radius.
     exc_bind (py_int (args_get args ''limit'' (PInt 10))) (\<lambda>l.
     Inr (lat, lng, radius, min l 100)))))"

text \<open>Lines 180-217: connect, execute, fetch, build the response.\<close>

definition nearby_query :: "config \<Rightarrow> db \<Rightarrow> pyfloat \<times> pyfloat \<times> int \<times> int \<Rightarrow> exc + response" where
  "nearby_query cfg d v =
     (case v of (lat, lng, radius, limit) \<Rightarrow>
       exc_bind (get_db_connection cfg d) (\<lambda>_.
       exc_bind (execute_nearby d (nearby_params lat lng radius limit)) (\<lambda>props.
       map_sum id (\<lambda>b. \<lparr>status = 200, body = b\<rparr>)
         (jsonify
            [PDict [(''search_center'', PDict [(''latitude'', PFloat lat), (''longitude'', PFloat lng)]),
                    (''radius_meters'', PInt radius),
                    (''total_found'', PInt (int (length props))),
                    (''properties'', PList (map nearby_row_dict props))]]
            [(''default'', PCallable ''serialize_result'')]))))"

definition nearby_try :: "config \<Rightarrow> query_args \<Rightarrow> db \<Rightarrow> exc + response" where
  "nearby_try cfg args d = exc_bind (nearby_args args) (nearby_query cfg d)"

text \<open>\<open>except ValueError\<close> answers 400, \<open>except Exception\<close> 500.\<close>

definition find_nearby_properties :: "config \<Rightarrow> query_args \<Rightarrow> db \<Rightarrow> response" where
  "find_nearby_properties cfg args d =
     (case nearby_try cfg args d of
        Inr resp \<Rightarrow> resp
      | Inl (ValueError _) \<Rightarrow> nearby_invalid
      | Inl _ \<Rightarrow> nearby_failed)"

declare find_nearby_properties_def [handler_defs]

subsection \<open>Lemmas\<close>

lemma count_ph_nearby_sql: "count_ph nearby_sql = 6"
  by (simp add: nearby_sql_def sql_quote_def)

lemma mem_nearby_rows:
  "(r, x) \<in> set (nearby_rows dst p q rad rs) \<longleftrightarrow>
     r \<in> set rs \<and> within_radius dst q rad r \<and> x = row_distance dst p r"
  by (auto simp: nearby_rows_def)

lemma length_nearby_rows: "length (nearby_rows dst p q rad rs) = length (filter (within_radius dst q rad) rs)"
  by (simp add: nearby_rows_def)

lemma py_float_str_error: "py_float (PStr s) = Inl e \<Longrightarrow> e = ValueError ''could not convert string to float''"
  by (simp split: option.splits)

lemma py_int_str_error: "py_int (PStr s) = Inl e \<Longrightarrow> e = ValueError ''invalid literal for int() with base 10''"
  by (simp split: option.splits)

lemma execute_nearby_not_value_error: "execute_nearby d ps \<noteq> Inl (ValueError m)"
proof -
  have "sql_limit v xs \<noteq> Inl (ValueError m)" for v and xs :: "(prop_row \<times> rat) list"
    by (cases v) auto
  then show ?thesis
    by (auto simp: execute_nearby_def split: list.splits option.splits prod.splits sum.splits if_splits)
qed

lemma jsonify_with_default: "jsonify [a] [(k, v)] = Inl (TypeError ''jsonify() takes either args or kwargs, not both'')"
  by (simp add: jsonify_def)

lemma nearby_args_error: "nearby_args args = Inl e \<Longrightarrow> \<exists>m. e = ValueError m"
  by (auto simp: nearby_args_def exc_bind_def args_get_def split: sum.splits option.splits
      dest: py_float_str_error py_int_str_error)

lemma nearby_query_fails: "\<exists>e. nearby_query cfg d v = Inl e \<and> (\<forall>m. e \<noteq> ValueError m)"
  by (auto simp: nearby_query_def exc_bind_def get_db_connection_def jsonify_with_default
      execute_nearby_not_value_error split: prod.splits sum.splits)

lemma find_nearby_Inl: "nearby_args args = Inl e \<Longrightarrow> find_nearby_properties cfg args d = nearby_invalid"
  using nearby_args_error [of args e] by (auto simp: find_nearby_properties_def nearby_try_def)

lemma find_nearby_Inr: "nearby_args args = Inr v \<Longrightarrow> find_nearby_properties cfg args d = nearby_failed"
proof -
  assume v: "nearby_args args = Inr v"
  obtain e where "nearby_query cfg d v = Inl e" and "\<forall>m. e \<noteq> ValueError m"
    using nearby_query_fails by blast
  with v show ?thesis by (cases e) (simp_all add: find_nearby_properties_def nearby_try_def)
qed

lemma sample_nearby:
  "execute_nearby sample_db (nearby_params (Fin (377749 / 10000)) (Fin (- 1224194 / 10000)) 1 10)
   = Inr [(sample_row, 0)]"
  by (simp add: execute_nearby_def nearby_params_def count_ph_nearby_sql wkt_point_def nearby_rows_def
      within_radius_def row_distance_def sample_db_def sample_row_def taxicab_def float8_in_iff)

text \<open>The float8 bound on the radius, \<open>2^1024 - 2^970\<close>.\<close>

lemma execute_nearby_fin:
  "execute_nearby d (nearby_params (Fin a) (Fin b) radius limit) =
     (if 2 ^ 1024 - 2 ^ 970 \<le> \<bar>radius\<bar> then Inl (DatabaseError ''value out of range for type double precision'')
      else if limit < 0 then Inl (DatabaseError ''LIMIT must not be negative'')
      else if radius < 0 \<and> limit \<noteq> 0 \<and> list_ex (\<lambda>x. location x \<noteq> None) (rows d)
      then Inl (DatabaseError ''Tolerance cannot be less than zero'')
      else Inr (take (nat limit) (nearby_rows (st_distance d) (b, a) (b, a) (of_int radius) (rows d))))"
  by (simp add: execute_nearby_def nearby_params_def count_ph_nearby_sql wkt_point_def float8_in_iff not_le)

lemma execute_nearby_nonfin:
  "\<not> (\<exists>a b. lat = Fin a \<and> lng = Fin b) \<Longrightarrow>
   execute_nearby d (nearby_params lat lng radius limit) = Inl (DatabaseError ''parse error - invalid geometry'')"
  by (cases lat; cases lng) (simp_all add: execute_nearby_def nearby_params_def count_ph_nearby_sql wkt_point_def)

lemma execute_nearby_Inr:
  assumes "execute_nearby d (nearby_params lat lng radius limit) = Inr res"
  shows "\<exists>a b. lat = Fin a \<and> lng = Fin b \<and> 0 \<le> limit
     \<and> res = take (nat limit) (nearby_rows (st_distance d) (b, a) (b, a) (of_int radius) (rows d))"
proof (cases "\<exists>a b. lat = Fin a \<and> lng = Fin b")
  case True
  with assms show ?thesis by (auto simp: execute_nearby_fin split: if_splits)
next
  case False
  with assms show ?thesis by (simp add: execute_nearby_nonfin)
qed

subsection \<open>The statement\<close>

text \<open>C10. The nearby statement, with \<open>(lng, lat, lng, lat, radius, limit)\<close> bound to its six
  placeholders, returns the rows with a location within \<open>radius\<close> of \<open>(lng, lat)\<close>, each
  with its distance, nearest first and cut at the limit; it fails when a coordinate is
  not a finite number, when the radius is beyond the range of \<open>float8\<close> (about
  \<open>1.8e308\<close>), when the limit is negative, or when the radius is negative and a
  located row is read.\<close>

theorem nearby_statement_refines:
  "execute_nearby d (nearby_params lat lng radius limit) =
     (case (lat, lng) of
        (Fin a, Fin b) \<Rightarrow>
          if 2 ^ 1024 - 2 ^ 970 \<le> \<bar>radius\<bar> then Inl (DatabaseError ''value out of range for type double precision'')
          else if limit < 0 then Inl (DatabaseError ''LIMIT must not be negative'')
          else if radius < 0 \<and> limit \<noteq> 0 \<and> list_ex (\<lambda>x. location x \<noteq> None) (rows d)
          then Inl (DatabaseError ''Tolerance cannot be less than zero'')
          else Inr (take (nat limit) (nearby_rows (st_distance d) (b, a) (b, a) (of_int radius) (rows d)))
      | _ \<Rightarrow> Inl (DatabaseError ''parse error - invalid geometry''))"
  by (cases lat; cases lng) (simp_all add: execute_nearby_fin execute_nearby_nonfin)

text \<open>C11. Every row the nearby statement returns is a table row whose location is within
  the radius of the search centre, paired with its distance to the centre.\<close>

theorem nearby_results_sound:
  assumes "execute_nearby d (nearby_params (Fin lat) (Fin lng) radius limit) = Inr res"
    and "(r, x) \<in> set res"
  shows "r \<in> set (rows d) \<and> (\<exists>l. location r = Some l \<and> st_distance d l (lng, lat) \<le> of_int radius
           \<and> x = st_distance d l (lng, lat))"
  using assms
  by (auto simp: execute_nearby_fin mem_nearby_rows within_radius_def row_distance_def
      split: if_splits option.splits dest!: in_set_takeD)

theorem nearby_results_sound_witness:
  "execute_nearby sample_db (nearby_params (Fin (377749 / 10000)) (Fin (- 1224194 / 10000)) 1 10)
     = Inr [(sample_row, 0)]
   \<and> (sample_row, 0) \<in> set [(sample_row, 0 :: rat)]
   \<and> sample_row \<in> set (rows sample_db)
   \<and> (\<exists>l. location sample_row = Some l \<and> st_distance sample_db l (- 1224194 / 10000, 377749 / 10000) \<le> of_int 1
        \<and> 0 = st_distance sample_db l (- 1224194 / 10000, 377749 / 10000))"
  using nearby_results_sound [OF sample_nearby, of sample_row 0] sample_nearby by simp

text \<open>C12. The limit the view computes, \<open>min(int(limit), 100)\<close> with default 10, is
  at most 100, and the statement run with the view's converted arguments returns at most
  that many rows: a radius search never fetches more than 100 rows.\<close>

theorem nearby_rows_bounded:
  assumes "nearby_args args = Inr (lat, lng, radius, limit)"
    and "execute_nearby d (nearby_params lat lng radius limit) = Inr res"
  shows "limit \<le> 100 \<and> length res \<le> nat limit \<and> length res \<le> 100"
proof -
  have "limit \<le> 100" using assms(1)
    by (auto simp: nearby_args_def exc_bind_def split: sum.splits)
  moreover have "length res \<le> nat limit" using execute_nearby_Inr [OF assms(2)] by auto
  ultimately show ?thesis by simp
qed

theorem nearby_rows_bounded_witness:
  "nearby_args [] = Inr (Fin (377749 / 10000), Fin (- 1224194 / 10000), 1000, 10)
   \<and> execute_nearby sample_db (nearby_params (Fin (377749 / 10000)) (Fin (- 1224194 / 10000)) 1000 10)
     = Inr [(sample_row, 0)]
   \<and> length [(sample_row, 0 :: rat)] \<le> 100"
proof -
  have a: "nearby_args [] = Inr (Fin (377749 / 10000), Fin (- 1224194 / 10000), 1000, 10)"
    by (simp add: nearby_args_def args_get_def)
  have e: "execute_nearby sample_db (nearby_params (Fin (377749 / 10000)) (Fin (- 1224194 / 10000)) 1000 10)
     = Inr [(sample_row, 0)]"
    by (simp add: execute_nearby_fin nearby_rows_def within_radius_def row_distance_def sample_db_def
        sample_row_def taxicab_def)
  from nearby_rows_bounded [OF a e] a e show ?thesis by simp
qed

text \<open>C13. A located row within the radius is returned, with its distance, when the radius
  is not negative and within the range of \<open>float8\<close> and no more rows qualify than the
  limit allows.\<close>

theorem nearby_complete:
  assumes "r \<in> set (rows d)" and "location r = Some l" and "st_distance d l (lng, lat) \<le> of_int radius"
    and "0 \<le> limit" and "0 \<le> radius" and "radius < 2 ^ 1024 - 2 ^ 970"
    and "length (filter (within_radius (st_distance d) (lng, lat) (of_int radius)) (rows d)) \<le> nat limit"
  shows "\<exists>res. execute_nearby d (nearby_params (Fin lat) (Fin lng) radius limit) = Inr res
           \<and> (r, st_distance d l (lng, lat)) \<in> set res"
proof -
  have "take (nat limit) (nearby_rows (st_distance d) (lng, lat) (lng, lat) (of_int radius) (rows d))
        = nearby_rows (st_distance d) (lng, lat) (lng, lat) (of_int radius) (rows d)"
    using assms(7) by (simp add: length_nearby_rows)
  moreover have "(r, st_distance d l (lng, lat)) \<in> set (nearby_rows (st_distance d) (lng, lat) (lng, lat) (of_int radius) (rows d))"
    using assms(1-3) by (simp add: mem_nearby_rows within_radius_def row_distance_def)
  ultimately show ?thesis using assms(4,5,6) by (simp add: execute_nearby_fin)
qed

theorem nearby_complete_witness:
  "\<exists>res. execute_nearby sample_db (nearby_params (Fin (377749 / 10000)) (Fin (- 1224194 / 10000)) 1 10) = Inr res
     \<and> (sample_row, st_distance sample_db (- 1224194 / 10000, 377749 / 10000) (- 1224194 / 10000, 377749 / 10000)) \<in> set res"
  by (rule nearby_complete [of sample_row sample_db "(- 1224194 / 10000, 377749 / 10000)"])
    (simp_all add: sample_db_def sample_row_def taxicab_def within_radius_def)

subsection \<open>The view function\<close>

text \<open>C14. The nearby view answers 400 \<open>Invalid coordinates or radius\<close> exactly when one of
  \<open>lat\<close>, \<open>lng\<close>, \<open>radius\<close>, \<open>limit\<close> fails to convert, and 500
  \<open>Search failed\<close> on every other request: the success path's \<open>jsonify\<close> call raises
  \<open>TypeError\<close>.\<close>

theorem find_nearby_status:
  "find_nearby_properties cfg args d = (if isl (nearby_args args) then nearby_invalid else nearby_failed)"
  by (cases "nearby_args args") (simp_all add: find_nearby_Inl find_nearby_Inr)

end
