(* ===== verification/Insert.thy ===== *)
theory Insert
  imports Connection
begin

text \<open>
  The insert, \<open>add_property\<close> in \<open>src/app.py\<close> (route \<open>POST /api/properties\<close>,
  lines 291-333): the JSON body, the required-field check with Python's \<open>in\<close>, the eight
  statement parameters taken from the body in order, the statement's execution by the
  store, and the view function, which returns the new store with its response. The
  lemmas show what a request does to the store (nothing, one sequence step, or one new
  row with the next id), when it answers 400, 201 and 500, and the defaults it applies.
\<close>

subsection \<open>The statement\<close>

definition insert_sql :: string where
  "insert_sql =
     ''INSERT INTO properties (address, price, bedrooms, bathrooms, square_feet, property_type, location) ''
     @ ''VALUES (%s, %s, %s, %s, %s, %s, ST_GeomFromText('' @ sql_quote ''POINT(%s %s)'' @ '', 4326)) ''
     @ ''RETURNING id;''"

definition required_fields :: "string list" where
  "required_fields = [''address'', ''price'', ''latitude'', ''longitude'']"

text \<open>Lines 311-320: the parameter tuple, evaluated left to right.\<close>

definition insert_params :: "pyval \<Rightarrow> exc + pyval list" where
  "insert_params data =
     exc_bind (py_getitem data ''address'') (\<lambda>a.
     exc_bind (py_getitem data ''price'') (\<lambda>p.
     exc_bind (py_dict_get data ''bedrooms'' PNone) (\<lambda>b.
     exc_bind (py_dict_get data ''bathrooms'' PNone) (\<lambda>ba.
     exc_bind (py_dict_get data ''square_feet'' PNone) (\<lambda>sf.
     exc_bind (py_dict_get data ''property_type'' (PStr ''Unknown'')) (\<lambda>pt.
     exc_bind (py_getitem data ''longitude'') (\<lambda>lng.
     exc_bind (py_getitem data ''latitude'') (\<lambda>lat.
     Inr [a, p, b, ba, sf, pt, lng, lat]))))))))"

text \<open>\<open>cur.execute(INSERT ...); cur.fetchone()['id']\<close>: psycopg2 checks the parameter
  count and adapts each parameter before anything reaches the store.\<close>

definition execute_insert :: "db \<Rightarrow> pyval list \<Rightarrow> (exc + int) \<times> db" where
  "execute_insert d params =
     (if length params < count_ph insert_sql then (Inl (IndexError ''tuple index out of range''), d)
      else if count_ph insert_sql < length params
      then (Inl (TypeError ''not all arguments converted during string formatting''), d)
      else if list_ex has_nul params
      then (Inl (ValueError ''A string literal cannot contain NUL (0x00) characters.''), d)
      else case coerce_insert params of
        None \<Rightarrow> (Inl (DatabaseError ''invalid input for column''), d)
      | Some v \<Rightarrow> store_insert d v)"

subsection \<open>The view function\<close>

definition insert_missing :: response where
  "insert_missing = \<lparr>status = 400, body = PDict [(''error'', PStr ''Missing required fields'')]\<rparr>"

definition insert_failed :: response where
  "insert_failed = \<lparr>status = 500, body = PDict [(''error'', PStr ''Failed to add property'')]\<rparr>"

definition insert_body :: "int \<Rightarrow> pyval" where
  "insert_body n = PDict
     [(''success'', PBool True), (''property_id'', PInt n), (''message'', PStr ''Property added successfully'')]"

definition insert_created :: "int \<Rightarrow> response" where
  "insert_created n = \<lparr>status = 201, body = insert_body n\<rparr>"

text \<open>
  The request body as \<open>request.get_json()\<close> sees it: \<open>None\<close> when it raises (a body
  that is not JSON, or not declared as JSON), otherwise the parsed value. A JSON object
  arrives as a Python dict, whose keys are distinct (the parser keeps the last of
  repeated keys); a \<open>PDict\<close> request lists such a dict's entries once each. Inside
  \<open>with conn:\<close> the transaction commits after a successful insert and rolls back on an
  exception; the store returned is the one after that.
\<close>

definition add_property_try :: "config \<Rightarrow> pyval option \<Rightarrow> db \<Rightarrow> (exc + response) \<times> db" where
  "add_property_try cfg req d =
     (case req of
        None \<Rightarrow> (Inl (HTTPException 415 ''Unsupported Media Type''), d)
      | Some data \<Rightarrow>
          (case py_all_in required_fields data of
             Inl e \<Rightarrow> (Inl e, d)
           | Inr False \<Rightarrow> (Inr insert_missing, d)
           | Inr True \<Rightarrow>
               (case get_db_connection cfg d of
                  Inl e \<Rightarrow> (Inl e, d)
                | Inr _ \<Rightarrow>
                    (case insert_params data of
                       Inl e \<Rightarrow> (Inl e, d)
                     | Inr ps \<Rightarrow>
                         (case execute_insert d ps of
                            (Inl e, d') \<Rightarrow> (Inl e, d')
                          | (Inr n, d') \<Rightarrow>
                              (map_sum id (\<lambda>b. \<lparr>status = 201, body = b\<rparr>) (jsonify [insert_body n] []), d'))))))"

definition add_property :: "config \<Rightarrow> pyval option \<Rightarrow> db \<Rightarrow> response \<times> db" where
  "add_property cfg req d =
     (case add_property_try cfg req d of
        (Inr resp, d') \<Rightarrow> (resp, d')
      | (Inl e, d') \<Rightarrow> (insert_failed, d'))"

subsection \<open>Specifications and sample data\<close>

text \<open>
  \<open>data.get(k, default)\<close> on a JSON object, as the statements of the lemmas use it.
\<close>

definition opt_arg :: "(string \<times> pyval) list \<Rightarrow> string \<Rightarrow> pyval \<Rightarrow> pyval" where
  "opt_arg kvs k dflt = (case map_of kvs k of Some v \<Rightarrow> v | None \<Rightarrow> dflt)"

text \<open>The statement's parameters for a JSON object that has the four required keys.\<close>

definition request_params :: "(string \<times> pyval) list \<Rightarrow> pyval list" where
  "request_params kvs =
     [the (map_of kvs ''address''), the (map_of kvs ''price''),
      opt_arg kvs ''bedrooms'' PNone, opt_arg kvs ''bathrooms'' PNone, opt_arg kvs ''square_feet'' PNone,
      opt_arg kvs ''property_type'' (PStr ''Unknown''),
      the (map_of kvs ''longitude''), the (map_of kvs ''latitude'')]"

text \<open>The request body of the spec's example (section 7).\<close>

definition sample_fields :: "(string \<times> pyval) list" where
  "sample_fields = [(''address'', PStr ''1 Main St''), (''price'', PInt 500000),
     (''latitude'', PFloat (Fin (3777 / 100))), (''longitude'', PFloat (Fin (- 12241 / 100)))]"

declare add_property_def [handler_defs]

subsection \<open>Lemmas\<close>

lemma count_ph_insert_sql [simp]: "count_ph insert_sql = 8"
  by (simp add: insert_sql_def sql_quote_def)

lemma py_all_in_dict:
  "py_all_in ks (PDict kvs) = Inr (\<forall>k\<in>set ks. k \<in> fst ` set kvs)"
  by (induction ks) (auto split: bool.split)

lemma py_all_in_list:
  "py_all_in ks (PList xs) = Inr (\<forall>k\<in>set ks. PStr k \<in> set xs)"
  by (induction ks) (auto split: bool.split)

lemma insert_params_dict:
  assumes "\<forall>k\<in>set required_fields. k \<in> fst ` set kvs"
  shows "insert_params (PDict kvs) =
     Inr [the (map_of kvs ''address''), the (map_of kvs ''price''),
          opt_arg kvs ''bedrooms'' PNone, opt_arg kvs ''bathrooms'' PNone, opt_arg kvs ''square_feet'' PNone,
          opt_arg kvs ''property_type'' (PStr ''Unknown''),
          the (map_of kvs ''longitude''), the (map_of kvs ''latitude'')]"
proof -
  have "map_of kvs k \<noteq> None" if "k \<in> set required_fields" for k
    using assms that by (simp add: map_of_eq_None_iff)
  then have "map_of kvs ''address'' \<noteq> None" "map_of kvs ''price'' \<noteq> None"
    "map_of kvs ''longitude'' \<noteq> None" "map_of kvs ''latitude'' \<noteq> None"
    by (simp_all add: required_fields_def)
  then show ?thesis
    by (auto simp: insert_params_def opt_arg_def)
qed

lemma insert_params_list: "insert_params (PList xs) = Inl (TypeError ''list indices must be integers or slices, not str'')"
  by (simp add: insert_params_def)

lemma store_insert_effect:
  assumes "store_insert d v = (x, d')"
  shows "(isl x \<and> d' = d\<lparr>id_seq := id_seq d + 1\<rparr>)
     \<or> (\<exists>a p. iv_address v = Some a \<and> iv_price v = Some p \<and> x = Inr (id_seq d)
          \<and> d' = d\<lparr>id_seq := id_seq d + 1, rows := rows d @ [insert_row d v a p]\<rparr>)"
  using assms by (auto simp: store_insert_def Let_def split: option.splits)

lemma execute_insert_cases:
  assumes "execute_insert d ps = (x, d')"
  shows "(isl x \<and> d' = d) \<or> (\<exists>v. coerce_insert ps = Some v \<and> store_insert d v = (x, d'))"
  using assms by (auto simp: execute_insert_def split: if_splits option.splits)

lemma pid_insert_row [simp]: "pid (insert_row d v a p) = id_seq d"
  by (simp add: insert_row_def)

lemma execute_insert_effect:
  assumes "execute_insert d ps = (x, d')"
  shows "(d' = d \<and> isl x)
     \<or> (d' = d\<lparr>id_seq := id_seq d + 1\<rparr> \<and> isl x)
     \<or> (\<exists>r. x = Inr (id_seq d) \<and> pid r = id_seq d \<and> d' = d\<lparr>id_seq := id_seq d + 1, rows := rows d @ [r]\<rparr>)"
proof -
  from execute_insert_cases [OF assms] show ?thesis
  proof
    assume "isl x \<and> d' = d" then show ?thesis by simp
  next
    assume "\<exists>v. coerce_insert ps = Some v \<and> store_insert d v = (x, d')"
    then obtain v where "store_insert d v = (x, d')" by blast
    from store_insert_effect [OF this] show ?thesis
    proof
      assume "isl x \<and> d' = d\<lparr>id_seq := id_seq d + 1\<rparr>"
      then show ?thesis by simp
    next
      assume "\<exists>a p. iv_address v = Some a \<and> iv_price v = Some p \<and> x = Inr (id_seq d)
          \<and> d' = d\<lparr>id_seq := id_seq d + 1, rows := rows d @ [insert_row d v a p]\<rparr>"
      then obtain a p where "x = Inr (id_seq d)"
        and "d' = d\<lparr>id_seq := id_seq d + 1, rows := rows d @ [insert_row d v a p]\<rparr>" by blast
      then show ?thesis by (intro disjI2 exI [of _ "insert_row d v a p"]) simp
    qed
  qed
qed

lemma add_property_try_cases:
  assumes "add_property_try cfg req d = (x, d')"
  shows "(d' = d \<and> (x = Inr insert_missing \<or> isl x))
     \<or> (\<exists>ps e. execute_insert d ps = (Inl e, d') \<and> x = Inl e)
     \<or> (\<exists>ps n. execute_insert d ps = (Inr n, d') \<and> x = Inr (insert_created n))"
  using assms
  by (auto simp: add_property_try_def insert_created_def
           split: option.splits sum.splits bool.splits prod.splits)

lemma status_insert_responses [simp]:
  "status insert_missing = 400" "status insert_failed = 500" "status (insert_created n) = 201"
  by (simp_all add: insert_missing_def insert_failed_def insert_created_def)

lemma add_property_created:
  assumes "add_property cfg req d = (resp, d')" and "status resp = 201"
  shows "\<exists>data ps n. req = Some data \<and> py_all_in required_fields data = Inr True
     \<and> insert_params data = Inr ps \<and> execute_insert d ps = (Inr n, d') \<and> resp = insert_created n"
  using assms
  by (auto simp: add_property_def add_property_try_def insert_created_def
           split: option.splits sum.splits bool.splits prod.splits)

lemma execute_insert_Inr:
  assumes "execute_insert d ps = (Inr n, d')"
  shows "\<exists>v a p. coerce_insert ps = Some v \<and> iv_address v = Some a \<and> iv_price v = Some p \<and> n = id_seq d
     \<and> d' = d\<lparr>id_seq := id_seq d + 1, rows := rows d @ [insert_row d v a p]\<rparr>"
  using assms
  by (auto simp: execute_insert_def store_insert_def Let_def split: if_splits option.splits)

lemma coerce_insert_Some:
  assumes "coerce_insert [a, p, b, ba, sf, pt, x, y] = Some v"
  shows "sql_text a = Some (iv_address v) \<and> sql_numeric p = Some (iv_price v)
     \<and> sql_numeric b = Some (iv_bedrooms v) \<and> sql_numeric ba = Some (iv_bathrooms v)
     \<and> sql_numeric sf = Some (iv_square_feet v) \<and> sql_text pt = Some (iv_property_type v)
     \<and> wkt_point x y = Some (iv_location v)"
  using assms by (auto simp: coerce_insert_def split: option.splits)

lemma add_property_result:
  assumes "add_property cfg req d = (resp, d')"
  obtains x where "add_property_try cfg req d = (x, d')" and "resp = case_sum (\<lambda>e. insert_failed) id x"
  using assms by (cases "add_property_try cfg req d") (auto simp: add_property_def split: sum.splits)

lemma add_property_outcomes:
  assumes "add_property cfg req d = (resp, d')"
  shows "(d' = d \<and> (resp = insert_missing \<or> resp = insert_failed))
     \<or> (d' = d\<lparr>id_seq := id_seq d + 1\<rparr> \<and> resp = insert_failed)
     \<or> (\<exists>r. pid r = id_seq d \<and> d' = d\<lparr>id_seq := id_seq d + 1, rows := rows d @ [r]\<rparr>
          \<and> resp = insert_created (id_seq d))"
proof -
  obtain x where x: "add_property_try cfg req d = (x, d')"
    and resp: "resp = case_sum (\<lambda>e. insert_failed) id x"
    using assms by (rule add_property_result)
  from add_property_try_cases [OF x] show ?thesis
  proof (elim disjE exE conjE)
    assume "d' = d" "x = Inr insert_missing" then show ?thesis using resp by simp
  next
    assume "d' = d" "isl x" then show ?thesis using resp by (cases x) auto
  next
    fix ps e assume ex: "execute_insert d ps = (Inl e, d')" and "x = Inl e"
    then have "resp = insert_failed" using resp by simp
    with execute_insert_effect [OF ex] show ?thesis by auto
  next
    fix ps n assume ex: "execute_insert d ps = (Inr n, d')" and "x = Inr (insert_created n)"
    then have "resp = insert_created n" using resp by simp
    with execute_insert_effect [OF ex] show ?thesis by auto
  qed
qed

lemma add_property_list_found:
  assumes "\<forall>k\<in>set required_fields. PStr k \<in> set xs"
  shows "add_property cfg (Some (PList xs)) d = (insert_failed, d)"
proof -
  from assms have "py_all_in required_fields (PList xs) = Inr True" by (simp add: py_all_in_list)
  then show ?thesis
    by (simp add: add_property_def add_property_try_def insert_params_def split: sum.split)
qed

lemma add_property_list_missing:
  assumes "\<not> (\<forall>k\<in>set required_fields. PStr k \<in> set xs)"
  shows "add_property cfg (Some (PList xs)) d = (insert_missing, d)"
proof -
  from assms have "py_all_in required_fields (PList xs) = Inr False" by (simp add: py_all_in_list)
  then show ?thesis by (simp add: add_property_def add_property_try_def)
qed

text \<open>What a 201 answer to a JSON object means: the body's values, in the statement's order,
  fit the columns, and the store gained the row built from them.\<close>

lemma add_property_201:
  assumes "add_property cfg (Some (PDict kvs)) d = (resp, d')" and "status resp = 201"
  obtains v a p where "coerce_insert (request_params kvs) = Some v"
    and "iv_address v = Some a" and "iv_price v = Some p" and "resp = insert_created (id_seq d)"
    and "d' = d\<lparr>id_seq := id_seq d + 1, rows := rows d @ [insert_row d v a p]\<rparr>"
proof -
  from add_property_created [OF assms] obtain ps n where
    all: "py_all_in required_fields (PDict kvs) = Inr True" and ps: "insert_params (PDict kvs) = Inr ps"
    and ex: "execute_insert d ps = (Inr n, d')" and resp: "resp = insert_created n" by blast
  from all have "\<forall>k\<in>set required_fields. k \<in> fst ` set kvs" by (simp add: py_all_in_dict)
  with ps have ps_eq: "ps = request_params kvs" by (simp add: insert_params_dict request_params_def)
  from execute_insert_Inr [OF ex] ps_eq resp show ?thesis using that by blast
qed

lemmas insert_eval = add_property_def add_property_try_def insert_params_def execute_insert_def
  coerce_insert_def wkt_point_def store_insert_def insert_row_def required_fields_def

text \<open>The spec's example request, run on the sample store.\<close>

lemma add_property_sample_run:
  "add_property cfg (Some (PDict sample_fields)) sample_db =
     (insert_created 2,
      sample_db\<lparr>id_seq := 3, rows := rows sample_db @
        [\<lparr>pid = 2, address = ''1 Main St'', price = 500000, bedrooms = None, bathrooms = None,
          square_feet = None, property_type = Some ''Unknown'', listing_status = Some ''active'',
          location = Some (- 12241 / 100, 3777 / 100), created_at = sample_time\<rparr>]\<rparr>)"
  by (simp add: insert_eval sample_fields_def sample_db_def insert_created_def)

subsection \<open>Properties of the insert\<close>

text \<open>C15. A JSON object that lacks one of \<open>address\<close>, \<open>price\<close>, \<open>latitude\<close>,
  \<open>longitude\<close> is answered 400 \<open>Missing required fields\<close>, and the store is not touched
  (not even the id sequence).\<close>

theorem add_property_missing_fields:
  assumes "\<not> (\<forall>k\<in>set required_fields. k \<in> fst ` set kvs)"
  shows "add_property cfg (Some (PDict kvs)) d = (insert_missing, d)"
proof -
  from assms have "py_all_in required_fields (PDict kvs) = Inr False" by (simp add: py_all_in_dict)
  then show ?thesis by (simp add: add_property_def add_property_try_def)
qed

theorem add_property_missing_fields_witness:
  "\<not> (\<forall>k\<in>set required_fields. k \<in> fst ` set [(''address'', PStr ''1 Main St'')])
   \<and> add_property sample_config (Some (PDict [(''address'', PStr ''1 Main St'')])) sample_db
       = (insert_missing, sample_db)"
  using add_property_missing_fields [of "[(''address'', PStr ''1 Main St'')]" sample_config sample_db]
  by (simp add: required_fields_def)

text \<open>C16. What a 201 stores: exactly one new row, with the id the sequence gave and the
  response reports, the body's address and price, \<open>bedrooms\<close>, \<open>bathrooms\<close> and
  \<open>square_feet\<close> or \<open>NULL\<close>, \<open>property_type\<close> or \<open>'Unknown'\<close>, the point built from
  \<open>longitude\<close> then \<open>latitude\<close> (the axis order of spec section 4.5), and the column
  defaults for \<open>listing_status\<close> and \<open>created_at\<close>.\<close>

theorem add_property_stores_request:
  assumes "add_property cfg (Some (PDict kvs)) d = (resp, d')" and "status resp = 201"
  shows "\<exists>r. rows d' = rows d @ [r] \<and> id_seq d' = id_seq d + 1 \<and> resp = insert_created (pid r)
     \<and> pid r = id_seq d
     \<and> sql_text (the (map_of kvs ''address'')) = Some (Some (address r))
     \<and> sql_numeric (the (map_of kvs ''price'')) = Some (Some (price r))
     \<and> sql_numeric (opt_arg kvs ''bedrooms'' PNone) = Some (bedrooms r)
     \<and> sql_numeric (opt_arg kvs ''bathrooms'' PNone) = Some (bathrooms r)
     \<and> sql_numeric (opt_arg kvs ''square_feet'' PNone) = Some (square_feet r)
     \<and> sql_text (opt_arg kvs ''property_type'' (PStr ''Unknown'')) = Some (property_type r)
     \<and> wkt_point (the (map_of kvs ''longitude'')) (the (map_of kvs ''latitude'')) = location r
     \<and> listing_status r = status_default d \<and> created_at r = clock d"
proof -
  obtain v a p where v: "coerce_insert (request_params kvs) = Some v"
    and a: "iv_address v = Some a" and p: "iv_price v = Some p" and resp: "resp = insert_created (id_seq d)"
    and d': "d' = d\<lparr>id_seq := id_seq d + 1, rows := rows d @ [insert_row d v a p]\<rparr>"
    using assms by (rule add_property_201)
  from v have c: "sql_text (the (map_of kvs ''address'')) = Some (iv_address v) \<and> sql_numeric (the (map_of kvs ''price'')) = Some (iv_price v)
     \<and> sql_numeric (opt_arg kvs ''bedrooms'' PNone) = Some (iv_bedrooms v)
     \<and> sql_numeric (opt_arg kvs ''bathrooms'' PNone) = Some (iv_bathrooms v)
     \<and> sql_numeric (opt_arg kvs ''square_feet'' PNone) = Some (iv_square_feet v)
     \<and> sql_text (opt_arg kvs ''property_type'' (PStr ''Unknown'')) = Some (iv_property_type v)
     \<and> wkt_point (the (map_of kvs ''longitude'')) (the (map_of kvs ''latitude'')) = Some (iv_location v)"
    unfolding request_params_def by (rule coerce_insert_Some)
  show ?thesis
    by (rule exI [of _ "insert_row d v a p"]) (simp add: d' resp c a p insert_row_def)
qed

theorem add_property_stores_request_witness:
  "\<exists>resp d'. add_property sample_config (Some (PDict sample_fields)) sample_db = (resp, d')
     \<and> status resp = 201
     \<and> (\<exists>r. rows d' = rows sample_db @ [r] \<and> id_seq d' = id_seq sample_db + 1 \<and> resp = insert_created (pid r)
     \<and> pid r = id_seq sample_db
     \<and> sql_text (the (map_of sample_fields ''address'')) = Some (Some (address r))
     \<and> sql_numeric (the (map_of sample_fields ''price'')) = Some (Some (price r))
     \<and> sql_numeric (opt_arg sample_fields ''bedrooms'' PNone) = Some (bedrooms r)
     \<and> sql_numeric (opt_arg sample_fields ''bathrooms'' PNone) = Some (bathrooms r)
     \<and> sql_numeric (opt_arg sample_fields ''square_feet'' PNone) = Some (square_feet r)
     \<and> sql_text (opt_arg sample_fields ''property_type'' (PStr ''Unknown'')) = Some (property_type r)
     \<and> wkt_point (the (map_of sample_fields ''longitude'')) (the (map_of sample_fields ''latitude'')) = location r
     \<and> listing_status r = status_default sample_db \<and> created_at r = clock sample_db)"
proof -
  have e: "add_property sample_config (Some (PDict sample_fields)) sample_db
      = (insert_created 2, snd (add_property sample_config (Some (PDict sample_fields)) sample_db))"
    by (simp add: add_property_sample_run)
  have s: "status (insert_created 2) = 201" by simp
  from add_property_stores_request [OF e s] e s show ?thesis by blast
qed

text \<open>C17. Frame of an insert: rows are only ever appended (identifiers are never changed and
  no row is updated or deleted), the answer is 201 exactly when one row was added, the id
  sequence advances by at most one (also on a failed insert that reached the store), and
  the other parts of the store are unchanged.\<close>

theorem add_property_store_frame:
  assumes "add_property cfg req d = (resp, d')"
  shows "prefix (rows d) (rows d') \<and> (status resp = 201 \<longleftrightarrow> length (rows d') = Suc (length (rows d)))
     \<and> id_seq d \<le> id_seq d' \<and> id_seq d' \<le> id_seq d + 1
     \<and> clock d' = clock d \<and> online d' = online d \<and> status_default d' = status_default d"
  using add_property_outcomes [OF assms] by auto

theorem add_property_store_frame_witness:
  "add_property sample_config (Some (PDict sample_fields)) sample_db
     = (insert_created 2, snd (add_property sample_config (Some (PDict sample_fields)) sample_db))
   \<and> prefix (rows sample_db) (rows (snd (add_property sample_config (Some (PDict sample_fields)) sample_db)))
   \<and> length (rows (snd (add_property sample_config (Some (PDict sample_fields)) sample_db))) = 2"
proof -
  have e: "add_property sample_config (Some (PDict sample_fields)) sample_db
     = (insert_created 2, snd (add_property sample_config (Some (PDict sample_fields)) sample_db))"
    by (simp add: add_property_sample_run)
  have "length (rows sample_db) = 1" by (simp add: sample_db_def)
  with add_property_store_frame [OF e] e show ?thesis by simp
qed

text \<open>C19. The parameter tuple the view builds from a body has exactly one value per
  placeholder of the insert statement (eight: six columns and the two coordinates of
  the point), so the driver's positional binding neither runs short nor over.\<close>

theorem insert_placeholders_match:
  assumes "insert_params data = Inr ps"
  shows "length ps = count_ph insert_sql"
  using assms by (auto simp: insert_params_def exc_bind_def split: sum.splits)

theorem insert_placeholders_match_witness:
  "insert_params (PDict sample_fields) = Inr (request_params sample_fields)
   \<and> length (request_params sample_fields) = count_ph insert_sql"
proof -
  have e: "insert_params (PDict sample_fields) = Inr (request_params sample_fields)"
    by (simp add: insert_params_def request_params_def opt_arg_def sample_fields_def)
  from insert_placeholders_match [OF e] e show ?thesis by simp
qed

text \<open>C18. Bodies that are not JSON objects: a request whose body is not JSON, or is
  \<open>null\<close>, is answered 500 (not 400); a JSON array passes the required-field check when
  it contains the four field names as strings, and then fails with 500 when the first
  field is read. None of them touches the store.\<close>

theorem add_property_non_object:
  "add_property cfg None d = (insert_failed, d)
   \<and> add_property cfg (Some PNone) d = (insert_failed, d)
   \<and> add_property cfg (Some (PList xs)) d =
       ((if \<forall>k\<in>set required_fields. PStr k \<in> set xs then insert_failed else insert_missing), d)"
proof (intro conjI)
  show "add_property cfg None d = (insert_failed, d)"
    by (simp add: add_property_def add_property_try_def)
  show "add_property cfg (Some PNone) d = (insert_failed, d)"
    by (simp add: add_property_def add_property_try_def required_fields_def)
  show "add_property cfg (Some (PList xs)) d =
       ((if \<forall>k\<in>set required_fields. PStr k \<in> set xs then insert_failed else insert_missing), d)"
    by (simp add: add_property_list_found add_property_list_missing)
qed

theorem add_property_non_object_witness:
  "add_property sample_config None sample_db = (insert_failed, sample_db)
   \<and> add_property sample_config (Some PNone) sample_db = (insert_failed, sample_db)
   \<and> add_property sample_config (Some (PList (map PStr required_fields))) sample_db = (insert_failed, sample_db)"
  using add_property_non_object [of sample_config sample_db "map PStr required_fields"] by simp

end
