(* ===== verification/Serializer.thy ===== *)
theory Serializer
  imports PyRuntime
begin

text \<open>
  The result serializer, \<open>serialize_result\<close> in \<open>src/app.py\<close> (lines 42-48), and the
  JSON encoding that calls it as its \<open>default\<close> hook: \<open>Decimal\<close> becomes a float,
  \<open>datetime\<close> its ISO-8601 text (\<open>datetime.isoformat\<close>, a library function modelled
  from its documentation), and any other value the encoder cannot represent is a
  \<open>TypeError\<close>. The encoding itself (\<open>json_encode\<close>) is library behaviour, modelled
  from the documentation of \<open>json.dumps(obj, default=f)\<close>. The theorem shows which
  values the hook lets through. In \<open>src/app.py\<close> the two calls that pass
  \<open>default=serialize_result\<close> fail inside \<open>jsonify\<close> before any encoding (see the
  Search and Nearby theories), so the serializer states what those views would send.
\<close>

subsection \<open>\<open>datetime.isoformat()\<close>\<close>

text \<open>\<open>'%0*d' % (w, n)\<close>: the decimal digits of \<open>n\<close>, padded with zeros to width \<open>w\<close>.\<close>

definition zpad :: "nat \<Rightarrow> nat \<Rightarrow> string" where
  "zpad w n = replicate (w - length (nat_digits n)) (CHR ''0'') @ nat_digits n"

text \<open>
  \<open>datetime.isoformat()\<close>: \<open>YYYY-MM-DDTHH:MM:SS\<close>, then \<open>.ffffff\<close> when the
  microseconds are not zero, then \<open>+HH:MM\<close> or \<open>-HH:MM\<close> for an aware value (an
  offset in whole minutes). The value is printed in its own offset: nothing converts it
  to UTC.
\<close>

definition iso_offset :: "int option \<Rightarrow> string" where
  "iso_offset off =
     (case off of
        None \<Rightarrow> []
      | Some m \<Rightarrow> (if m < 0 then CHR ''-'' else CHR ''+'') # zpad 2 (nat \<bar>m\<bar> div 60) @ '':'' @ zpad 2 (nat \<bar>m\<bar> mod 60))"

definition py_isoformat :: "datetime \<Rightarrow> string" where
  "py_isoformat t =
     zpad 4 (year t) @ ''-'' @ zpad 2 (month t) @ ''-'' @ zpad 2 (day t) @ ''T''
     @ zpad 2 (hour t) @ '':'' @ zpad 2 (minute t) @ '':'' @ zpad 2 (second t)
     @ (if microsecond t = 0 then [] else ''.'' @ zpad 6 (microsecond t))
     @ iso_offset (utcoffset t)"

subsection \<open>\<open>serialize_result\<close> and the JSON encoder\<close>

text \<open>Lines 42-48.\<close>

fun serialize_result :: "pyval \<Rightarrow> exc + pyval" where
  "serialize_result (PDecimal r) = Inr (PFloat (float_round r))"
| "serialize_result (PDatetime t) = Inr (PStr (py_isoformat t))"
| "serialize_result _ = Inl (TypeError ''Object of type is not JSON serializable'')"

text \<open>
  JSON documents. \<open>json.dumps(obj, default=f)\<close> encodes \<open>None\<close>, booleans, ints, floats
  (\<open>NaN\<close> and the infinities as the non-standard literals Python writes), strings, lists
  and dicts itself, stopping at the first value it cannot encode; for any other value it
  calls \<open>f\<close> and encodes the result. \<open>json_encode\<close> is the one-step reading: it
  encodes \<open>f\<close>'s result without calling \<open>f\<close> again, which is what Python's
  encoder does for a hook whose results it can encode, as \<open>serialize_result\<close>'s are.
\<close>

datatype json = JNull | JBool bool | JInt int | JFloat pyfloat | JStr string
  | JArr "json list" | JObj "(string \<times> json) list"

fun json_scalar :: "pyval \<Rightarrow> exc + json" where
  "json_scalar PNone = Inr JNull"
| "json_scalar (PBool b) = Inr (JBool b)"
| "json_scalar (PInt i) = Inr (JInt i)"
| "json_scalar (PFloat x) = Inr (JFloat x)"
| "json_scalar (PStr s) = Inr (JStr s)"
| "json_scalar _ = Inl (TypeError ''Object is not JSON serializable'')"

fun exc_list :: "(exc + 'a) list \<Rightarrow> exc + 'a list" where
  "exc_list [] = Inr []"
| "exc_list (x # xs) = exc_bind x (\<lambda>a. exc_bind (exc_list xs) (\<lambda>as. Inr (a # as)))"

fun json_encode :: "(pyval \<Rightarrow> exc + pyval) \<Rightarrow> pyval \<Rightarrow> exc + json" where
  "json_encode f PNone = Inr JNull"
| "json_encode f (PBool b) = Inr (JBool b)"
| "json_encode f (PInt i) = Inr (JInt i)"
| "json_encode f (PFloat x) = Inr (JFloat x)"
| "json_encode f (PStr s) = Inr (JStr s)"
| "json_encode f (PList xs) = map_sum id JArr (exc_list (map (json_encode f) xs))"
| "json_encode f (PDict kvs) =
     map_sum id JObj (exc_list (map (\<lambda>kv. map_sum id (Pair (fst kv)) (json_encode f (snd kv))) kvs))"
| "json_encode f (PDecimal r) = exc_bind (f (PDecimal r)) json_scalar"
| "json_encode f (PDatetime t) = exc_bind (f (PDatetime t)) json_scalar"
| "json_encode f (PCallable c) = exc_bind (f (PCallable c)) json_scalar"

text \<open>The values \<open>json.dumps(v, default=serialize_result)\<close> can encode: no function object anywhere.\<close>

fun json_safe :: "pyval \<Rightarrow> bool" where
  "json_safe (PCallable c) = False"
| "json_safe (PList xs) = list_all json_safe xs"
| "json_safe (PDict kvs) = list_all (\<lambda>kv. json_safe (snd kv)) kvs"
| "json_safe _ = True"

subsection \<open>Lemmas\<close>

lemma exc_list_Inr_iff: "(\<exists>ys. exc_list xs = Inr ys) \<longleftrightarrow> list_all (\<lambda>x. \<exists>y. x = Inr y) xs"
  by (induction xs) (auto simp: exc_bind_def split: sum.splits)

lemma map_sum_Inr_ex: "(\<exists>j. map_sum id g x = Inr j) \<longleftrightarrow> (\<exists>j. x = Inr j)"
  by (cases x) auto

lemma map_sum_Pair_Inr_ex: "(\<exists>a b. map_sum id (Pair k) x = Inr (a, b)) \<longleftrightarrow> (\<exists>j. x = Inr j)"
  by (cases x) auto

subsection \<open>Properties of the serializer\<close>

text \<open>C20. Spec section 4.2: with \<open>default=serialize_result\<close> the encoder succeeds exactly
  on the values that hold no object other than JSON values, \<open>Decimal\<close> and
  \<open>datetime\<close>; on any other it raises \<open>TypeError\<close> rather than dropping the value.\<close>

theorem json_encode_serialize_result:
  "(\<exists>j. json_encode serialize_result v = Inr j) \<longleftrightarrow> json_safe v"
proof (induction v)
  case (PList xs)
  then show ?case by (simp add: map_sum_Inr_ex exc_list_Inr_iff list_all_iff)
next
  case (PDict kvs)
  have "(\<exists>j. json_encode serialize_result (snd kv) = Inr j) \<longleftrightarrow> json_safe (snd kv)" if "kv \<in> set kvs" for kv
    using PDict.IH [of kv "snd kv"] that by (cases kv) simp
  then show ?case by (simp add: map_sum_Inr_ex map_sum_Pair_Inr_ex exc_list_Inr_iff list_all_iff)
qed simp_all

end
