(* ===== verification/Health.thy ===== *)
theory Health
  imports Connection Serializer
begin

text \<open>
  The health probe, \<open>health_check\<close> in \<open>src/app.py\<close> (route \<open>/health\<close>, lines
  118-168): three statements in sequence on one connection (server facts, the PostGIS
  version, the row counts), aggregated into one object; any failure, the connection's
  included, gives 500 with \<open>status: unhealthy\<close> and the exception's message. The
  service clock \<open>datetime.now()\<close> is an input of the handler. The lemmas show the
  healthy answer's shape and counts, and that each failing probe makes the whole check
  unhealthy.
\<close>

subsection \<open>The probes\<close>

text \<open>\<open>SELECT version(), current_database(), current_user, NOW();\<close>\<close>

definition probe_server :: "db \<Rightarrow> exc + string \<times> string \<times> string \<times> datetime" where
  "probe_server d = Inr (pg_version d, db_name d, db_user d, clock d)"

text \<open>\<open>SELECT PostGIS_Version();\<close>: the function exists only with the extension installed.\<close>

definition probe_postgis :: "db \<Rightarrow> exc + string" where
  "probe_postgis d =
     (case postgis_version d of
        Some v \<Rightarrow> Inr v
      | None \<Rightarrow> Inl (DatabaseError ''function postgis_version() does not exist''))"

text \<open>\<open>SELECT COUNT(*), COUNT(location) FROM properties;\<close>: \<open>COUNT(location)\<close> counts
  the non-\<open>NULL\<close> locations.\<close>

definition probe_counts :: "db \<Rightarrow> exc + int \<times> int" where
  "probe_counts d = Inr (int (length (rows d)), int (length (filter (\<lambda>r. location r \<noteq> None) (rows d))))"

subsection \<open>The view function\<close>

definition health_body ::
  "datetime \<Rightarrow> string \<times> string \<times> string \<times> datetime \<Rightarrow> string \<Rightarrow> int \<times> int \<Rightarrow> pyval" where
  "health_body now info pv counts =
     PDict [(''status'', PStr ''healthy''), (''timestamp'', PStr (py_isoformat now)),
            (''database'', PDict [(''version'', PStr (fst info)), (''database'', PStr (fst (snd info))),
                                  (''user'', PStr (fst (snd (snd info)))),
                                  (''server_time'', PStr (py_isoformat (snd (snd (snd info)))))]),
            (''postgis'', PDict [(''version'', PStr pv), (''spatial_enabled'', PBool True)]),
            (''data_summary'', PDict [(''total_properties'', PInt (fst counts)),
                                      (''properties_with_location'', PInt (snd counts))])]"

definition health_failed :: "exc \<Rightarrow> datetime \<Rightarrow> response" where
  "health_failed e now = \<lparr>status = 500, body = PDict
     [(''status'', PStr ''unhealthy''), (''error'', PStr (exc_str e)), (''timestamp'', PStr (py_isoformat now))]\<rparr>"

definition health_try :: "config \<Rightarrow> db \<Rightarrow> datetime \<Rightarrow> exc + pyval" where
  "health_try cfg d now =
     exc_bind (get_db_connection cfg d) (\<lambda>_.
     exc_bind (probe_server d) (\<lambda>info.
     exc_bind (probe_postgis d) (\<lambda>pv.
     exc_bind (probe_counts d) (\<lambda>counts.
     jsonify [health_body now info pv counts] []))))"

definition health_check :: "config \<Rightarrow> db \<Rightarrow> datetime \<Rightarrow> response" where
  "health_check cfg d now =
     (case health_try cfg d now of
        Inl e \<Rightarrow> health_failed e now
      | Inr b \<Rightarrow> \<lparr>status = 200, body = b\<rparr>)"

declare health_check_def [handler_defs]

subsection \<open>Lemmas\<close>

lemma health_try_ok:
  "online d \<Longrightarrow> postgis_version d = Some pv \<Longrightarrow>
   health_try cfg d now = Inr (health_body now (pg_version d, db_name d, db_user d, clock d) pv
     (int (length (rows d)), int (length (filter (\<lambda>r. location r \<noteq> None) (rows d)))))"
  by (simp add: health_try_def probe_server_def probe_postgis_def probe_counts_def)

lemma health_try_fails:
  "\<not> online d \<or> postgis_version d = None \<Longrightarrow> \<exists>e. health_try cfg d now = Inl e"
  by (auto simp: health_try_def probe_server_def probe_postgis_def get_db_connection_def)

subsection \<open>Properties of the health probe\<close>

text \<open>C21. With the store reachable and PostGIS installed, the probe answers 200 with the
  object of spec section 4.6 (keys \<open>status\<close>, \<open>timestamp\<close>, \<open>database\<close>,
  \<open>postgis\<close>, \<open>data_summary\<close>, in that order), \<open>status: healthy\<close>, the table's row
  count as \<open>total_properties\<close> and the count of rows with a location as
  \<open>properties_with_location\<close>.\<close>

theorem health_check_healthy:
  assumes "online d" and "postgis_version d = Some pv"
  shows "status (health_check cfg d now) = 200
    \<and> (case body (health_check cfg d now) of
         PDict kvs \<Rightarrow> map fst kvs = [''status'', ''timestamp'', ''database'', ''postgis'', ''data_summary'']
       | _ \<Rightarrow> False)
    \<and> py_getitem (body (health_check cfg d now)) ''status'' = Inr (PStr ''healthy'')
    \<and> exc_bind (py_getitem (body (health_check cfg d now)) ''data_summary'') (\<lambda>s. py_getitem s ''total_properties'')
        = Inr (PInt (int (length (rows d))))
    \<and> exc_bind (py_getitem (body (health_check cfg d now)) ''data_summary'') (\<lambda>s. py_getitem s ''properties_with_location'')
        = Inr (PInt (int (length (filter (\<lambda>r. location r \<noteq> None) (rows d)))))"
  using assms by (simp add: health_check_def health_try_ok health_body_def)

theorem health_check_healthy_witness:
  "online sample_db \<and> postgis_version sample_db = Some ''3.4 USE_GEOS=1 USE_PROJ=1 USE_STATS=1''
   \<and> status (health_check sample_config sample_db sample_time) = 200"
  using health_check_healthy [of sample_db "''3.4 USE_GEOS=1 USE_PROJ=1 USE_STATS=1''" sample_config sample_time]
  by (simp add: sample_db_def)

text \<open>C22. When the store cannot be reached, or the PostGIS probe fails, the whole check
  is aborted: 500 with \<open>status: unhealthy\<close>, the failure's message and the service
  clock's timestamp.\<close>

theorem health_check_unhealthy:
  assumes "\<not> online d \<or> postgis_version d = None"
  shows "\<exists>e. health_check cfg d now = \<lparr>status = 500, body = PDict
     [(''status'', PStr ''unhealthy''), (''error'', PStr (exc_str e)), (''timestamp'', PStr (py_isoformat now))]\<rparr>"
  using health_try_fails [OF assms, of cfg now] by (auto simp: health_check_def health_failed_def)

theorem health_check_unhealthy_witness:
  "health_check sample_config (sample_db\<lparr>online := False\<rparr>) sample_time = \<lparr>status = 500, body = PDict
     [(''status'', PStr ''unhealthy''), (''error'', PStr ''could not connect to server''),
      (''timestamp'', PStr (py_isoformat sample_time))]\<rparr>"
proof -
  have h: "\<not> online (sample_db\<lparr>online := False\<rparr>) \<or> postgis_version (sample_db\<lparr>online := False\<rparr>) = None"
    by simp
  from health_check_unhealthy [OF h, of sample_config sample_time] h show ?thesis
    by (simp add: health_check_def health_try_def health_failed_def)
qed

end
