(* ===== verification/App.thy ===== *)
theory App
  imports Search Nearby Insert Health
begin

text \<open>
  The Flask application of \<open>src/app.py\<close> as a server: the URL map (five routes, each
  with the one method its decorator names), Werkzeug's answers for an unknown path (the
  404 handler of lines 336-338) and for a known path with another method (405), and a
  run of requests against the store, which is the only state the requests share. The
  lemmas show the 404 and 405 answers and, over a run, that the ids of the \<open>201\<close>
  answers are strictly increasing and name stored rows.
\<close>

subsection \<open>Requests and the URL map\<close>

text \<open>
  Request methods; \<open>HEAD\<close> and \<open>OPTIONS\<close>, which Flask answers itself for every
  route, are not represented.
\<close>

datatype http_method = GET | POST | PUT | PATCH | DELETE

record request =
  rq_method :: http_method
  rq_path :: string
  rq_args :: query_args \<comment> \<open>\<open>request.args\<close>\<close>
  rq_json :: "pyval option" \<comment> \<open>\<open>request.get_json()\<close>, \<open>None\<close> when it raises\<close>

datatype route = Home | HealthRoute | NearbyRoute | SearchRoute | PropertiesRoute

text \<open>\<open>@app.route(...)\<close>: exact paths (no trailing-slash redirect for these rules).\<close>

definition match_route :: "string \<Rightarrow> route option" where
  "match_route p =
     (if p = ''/'' then Some Home
      else if p = ''/health'' then Some HealthRoute
      else if p = ''/api/properties/nearby'' then Some NearbyRoute
      else if p = ''/api/properties/search'' then Some SearchRoute
      else if p = ''/api/properties'' then Some PropertiesRoute
      else None)"

fun route_method :: "route \<Rightarrow> http_method" where
  "route_method PropertiesRoute = POST"
| "route_method _ = GET"

subsection \<open>Error handlers and the documentation page\<close>

definition not_found :: response where
  "not_found = \<lparr>status = 404, body = PDict [(''error'', PStr ''Endpoint not found'')]\<rparr>"

definition internal_error :: response where
  "internal_error = \<lparr>status = 500, body = PDict [(''error'', PStr ''Internal server error'')]\<rparr>"

text \<open>Werkzeug's \<open>MethodNotAllowed\<close>; no handler is registered for 405, so its page is HTML.\<close>

definition method_not_allowed :: response where
  "method_not_allowed = \<lparr>status = 405, body = PStr ''405 Method Not Allowed''\<rparr>"

text \<open>\<open>home\<close> renders a fixed page with no template variables; its text is a parameter.\<close>

definition home :: "string \<Rightarrow> response" where
  "home page = \<lparr>status = 200, body = PStr page\<rparr>"

subsection \<open>Dispatch and runs\<close>

text \<open>
  One request: route, method check, view function. The view functions catch every
  exception themselves, so the 500 handler (lines 340-342) is never reached.
\<close>

definition dispatch :: "config \<Rightarrow> string \<Rightarrow> datetime \<Rightarrow> request \<Rightarrow> db \<Rightarrow> response \<times> db" where
  "dispatch cfg page now rq d =
     (case match_route (rq_path rq) of
        None \<Rightarrow> (not_found, d)
      | Some rt \<Rightarrow>
          if rq_method rq \<noteq> route_method rt then (method_not_allowed, d)
          else case rt of
            Home \<Rightarrow> (home page, d)
          | HealthRoute \<Rightarrow> (health_check cfg d now, d)
          | NearbyRoute \<Rightarrow> (find_nearby_properties cfg (rq_args rq) d, d)
          | SearchRoute \<Rightarrow> (search_properties cfg (rq_args rq) d, d)
          | PropertiesRoute \<Rightarrow> add_property cfg (rq_json rq) d)"

text \<open>A run of requests served one after another, each with its clock reading.\<close>

fun serve :: "config \<Rightarrow> string \<Rightarrow> (datetime \<times> request) list \<Rightarrow> db \<Rightarrow> response list \<times> db" where
  "serve cfg page [] d = ([], d)"
| "serve cfg page ((now, rq) # rqs) d =
     (let (resp, d') = dispatch cfg page now rq d;
          (resps, d'') = serve cfg page rqs d'
      in (resp # resps, d''))"

text \<open>
  The identifier a client reads from a \<open>201\<close> answer: its \<open>property_id\<close> field
  (spec section 4.4); \<open>None\<close> for every other answer.
\<close>

definition created_id :: "response \<Rightarrow> int option" where
  "created_id r =
     (if status r = 201 then (case py_getitem (body r) ''property_id'' of Inr (PInt n) \<Rightarrow> Some n | _ \<Rightarrow> None)
      else None)"

subsection \<open>Lemmas\<close>

lemma serve_Cons_split:
  "serve cfg page ((now, rq) # rqs) d =
     (fst (dispatch cfg page now rq d) # fst (serve cfg page rqs (snd (dispatch cfg page now rq d))),
      snd (serve cfg page rqs (snd (dispatch cfg page now rq d))))"
  by (simp split: prod.split)

lemma created_id_insert_created [simp]: "created_id (insert_created n) = Some n"
  by (simp add: created_id_def insert_created_def insert_body_def)

lemma created_id_not_201: "status r \<noteq> 201 \<Longrightarrow> created_id r = None"
  by (simp add: created_id_def)

lemma status_health_check: "status (health_check cfg d now) \<noteq> 201"
  by (simp add: health_check_def health_failed_def split: sum.split)

lemma status_search_properties: "status (search_properties cfg args d) \<noteq> 201"
  by (simp add: search_properties_def search_failed_def Let_def split: sum.split prod.split)

lemma status_find_nearby: "status (find_nearby_properties cfg args d) \<noteq> 201"
  by (cases "nearby_args args") (simp_all add: find_nearby_Inl find_nearby_Inr nearby_invalid_def nearby_failed_def)

text \<open>One request: the id sequence never goes back, rows are only appended, and a
  \<open>201\<close> answer carries the sequence's value, which it consumed for a stored row.\<close>

lemma dispatch_ids:
  assumes "dispatch cfg page now rq d = (resp, d')"
  shows "id_seq d \<le> id_seq d' \<and> prefix (rows d) (rows d')
    \<and> (case created_id resp of None \<Rightarrow> True
       | Some n \<Rightarrow> n = id_seq d \<and> id_seq d' = id_seq d + 1 \<and> n \<in> pid ` set (rows d'))"
proof (cases "rq_method rq = POST \<and> rq_path rq = ''/api/properties''")
  case True
  then have a: "add_property cfg (rq_json rq) d = (resp, d')"
    using assms by (simp add: dispatch_def match_route_def)
  from add_property_outcomes [OF a] show ?thesis
    by (auto simp: insert_missing_def insert_failed_def created_id_not_201)
next
  case False
  then have "d' = d" and "status resp \<noteq> 201" using assms
    by (auto simp: dispatch_def match_route_def not_found_def method_not_allowed_def home_def
        status_health_check status_search_properties status_find_nearby split: if_splits route.splits)
  then show ?thesis by (simp add: created_id_not_201)
qed

lemma serve_ids_mono:
  "id_seq d \<le> id_seq (snd (serve cfg page rqs d)) \<and> prefix (rows d) (rows (snd (serve cfg page rqs d)))"
proof (induction rqs arbitrary: d)
  case (Cons x rqs)
  obtain now rq where x: "x = (now, rq)" by (cases x)
  obtain resp d' where e: "dispatch cfg page now rq d = (resp, d')" by (cases "dispatch cfg page now rq d")
  from dispatch_ids [OF e] Cons.IH [of d'] show ?case
    by (auto simp: x e serve_Cons_split simp del: serve.simps(2) intro: prefix_order.trans)
qed simp

subsection \<open>Properties of the server\<close>

text \<open>C23. Spec section 7: a request for a path no route matches, such as
  \<open>GET /api/nonexistent\<close>, is answered 404 with \<open>{"error": "Endpoint not found"}\<close>, and
  the store is unchanged.\<close>

theorem dispatch_not_found:
  assumes "match_route (rq_path rq) = None"
  shows "dispatch cfg page now rq d = (\<lparr>status = 404, body = PDict [(''error'', PStr ''Endpoint not found'')]\<rparr>, d)"
  using assms by (simp add: dispatch_def not_found_def)

theorem dispatch_not_found_witness:
  "match_route ''/api/nonexistent'' = None
   \<and> dispatch sample_config ''<html></html>'' sample_time
       \<lparr>rq_method = GET, rq_path = ''/api/nonexistent'', rq_args = [], rq_json = None\<rparr> sample_db
     = (\<lparr>status = 404, body = PDict [(''error'', PStr ''Endpoint not found'')]\<rparr>, sample_db)"
proof -
  have m: "match_route (rq_path \<lparr>rq_method = GET, rq_path = ''/api/nonexistent'', rq_args = [], rq_json = None\<rparr>) = None"
    by (simp add: match_route_def)
  from dispatch_not_found [OF m, of sample_config "''<html></html>''" sample_time sample_db] m show ?thesis by simp
qed



text \<open>C25. Ordering over a run: the identifiers the \<open>201\<close> answers of a run carry, in the
  order the requests were served, are strictly increasing, lie between the id sequence
  at the start and at the end of the run, and each is the id of a row of the final
  store. Requests of every other kind, failed inserts included, never reuse or skip
  backwards in the sequence.\<close>

theorem serve_created_ids:
  "sorted_wrt (<) (List.map_filter created_id (fst (serve cfg page rqs d)))
   \<and> list_all (\<lambda>n. id_seq d \<le> n \<and> n < id_seq (snd (serve cfg page rqs d))
                    \<and> n \<in> pid ` set (rows (snd (serve cfg page rqs d))))
       (List.map_filter created_id (fst (serve cfg page rqs d)))"
proof (induction rqs arbitrary: d)
  case Nil
  then show ?case by (simp add: map_filter_simps)
next
  case (Cons x rqs)
  obtain now rq where x: "x = (now, rq)" by (cases x)
  obtain resp d' where e: "dispatch cfg page now rq d = (resp, d')" by (cases "dispatch cfg page now rq d")
  have d: "id_seq d \<le> id_seq d'"
    and c: "case created_id resp of None \<Rightarrow> True
       | Some n \<Rightarrow> n = id_seq d \<and> id_seq d' = id_seq d + 1 \<and> n \<in> pid ` set (rows d')"
    using dispatch_ids [OF e] by auto
  have m: "id_seq d' \<le> id_seq (snd (serve cfg page rqs d'))"
    "set (rows d') \<subseteq> set (rows (snd (serve cfg page rqs d')))"
    using serve_ids_mono [of d' cfg page rqs] by (auto dest: set_mono_prefix)
  show ?case
  proof (cases "created_id resp")
    case None
    with Cons.IH [of d'] d show ?thesis
      by (auto simp: x e serve_Cons_split map_filter_simps list_all_iff simp del: serve.simps(2))
  next
    case (Some n)
    with c have "n = id_seq d" "id_seq d' = id_seq d + 1" "n \<in> pid ` set (rows d')" by auto
    with Some Cons.IH [of d'] m show ?thesis
      by (fastforce simp: x e serve_Cons_split map_filter_simps list_all_iff simp del: serve.simps(2))
  qed
qed

end
