(* ===== verification/SearchEngine.thy ===== *)
theory SearchEngine
  imports PyRuntime
begin

text \<open>
  \<open>src/modules/module_10/example.py\<close>: the stub class \<open>PropertySearchEngine\<close>, whose
  constructor is its only operation. It keeps the connection string it is given, or
  \<open>DATABASE_URL\<close> when that argument is missing or empty (\<open>or\<close> tests truthiness), and
  creates a CloudWatch client exactly when \<open>AWS_REGION\<close> is set to a non-empty value.
  The environment is a function from variable names to optional values; the client is
  recorded by whether it exists.
\<close>

record engine =
  conn_string :: "string option"
  cloudwatch :: bool

definition engine_init :: "string option \<Rightarrow> (string \<Rightarrow> string option) \<Rightarrow> engine" where
  "engine_init connection_string env =
     \<lparr>conn_string = (if py_truthy (pv_str connection_string) then connection_string else env ''DATABASE_URL''),
      cloudwatch = py_truthy (pv_str (env ''AWS_REGION''))\<rparr>"

text \<open>The \<open>__main__\<close> block: \<open>PropertySearchEngine()\<close> with no argument.\<close>

definition engine_main :: "(string \<Rightarrow> string option) \<Rightarrow> engine" where
  "engine_main env = engine_init None env"

end
