(* ===== verification/Spec2Isabelle.thy ===== *)
theory Spec2Isabelle
  imports App SearchEngine
begin

text \<open>
  A verification model of postgis-property-search-demo-py: \<open>src/app.py\<close>, a Flask
  service over a PostgreSQL/PostGIS table of property listings, and the stub class of
  \<open>src/modules/module_10/example.py\<close>.

  \<^bold>\<open>The program.\<close> Each HTTP request is routed to one view function. The view opens
  a connection (\<open>get_db_connection\<close>), converts its inputs, builds a parameterised
  statement, lets psycopg2 bind the parameters to the \<open>%s\<close> placeholders in order, runs
  it in the store and answers with \<open>jsonify\<close>. Every view catches its own exceptions.
  The store (the \<open>properties\<close> table, its id sequence, the server) is the only state
  the requests share.

  \<^bold>\<open>Theories, and the code each models.\<close>
  \<^item> \<open>Prelude\<close>: the point type (longitude, latitude) over \<open>rat\<close>, the
    \<open>handler_defs\<close> and \<open>parse_defs\<close> collections, lemmas on
    \<open>take n (sort_key f (filter P xs))\<close> (the shape of both search results), ASCII case
    folding and digits.
  \<^item> \<open>PyRuntime\<close>: what the code takes from Python, Werkzeug and Flask: values
    (\<open>pyval\<close>), exceptions (\<open>exc\<close>, \<open>exc_bind\<close> for a \<open>try\<close> block),
    \<open>int()\<close> and \<open>float()\<close> on strings (\<open>py_int\<close>, \<open>py_float\<close>), \<open>str(int)\<close>,
    truthiness, \<open>in\<close>, subscription, \<open>dict.get\<close>, \<open>request.args.get\<close> with and
    without \<open>type=\<close>, \<open>jsonify\<close>, \<open>str(e)\<close>.
  \<^item> \<open>Store\<close>: the database as the record \<open>db\<close> (rows, id sequence, clock,
    reachability, server facts, \<open>st_distance\<close>) and how it executes what the code sends:
    psycopg2's placeholder count and its refusal of NUL characters; the reading of the
    search's \<open>SELECT\<close> text (\<open>parse_select\<close>: the conditions cut at \<open> AND \<close>,
    \<open>ORDER BY\<close>, \<open>LIMIT\<close>); the meaning of the filter templates, \<open>LIKE\<close>/\<open>ILIKE\<close>,
    WKT points, the insert's column coercions, sequence step and \<open>NOT NULL\<close> check. This
    part is modelled from the spec and from PostgreSQL's, PostGIS's and psycopg2's
    documented behaviour; it is not code of the repository.
  \<^item> \<open>Connection\<close>: \<open>DATABASE_URL\<close>, \<open>get_db_connection\<close> (app.py 28-40), the
    \<open>__main__\<close> settings (344-351) and \<open>process_start\<close>, the two composed in the
    order the process runs them (module body, then \<open>__main__\<close>).
  \<^item> \<open>Search\<close>: \<open>search_properties\<close> (225-289): \<open>search_limit\<close> (line 234),
    \<open>build_search\<close>, \<open>search_sql\<close>, \<open>execute_search\<close> (the store run on the statement
    text), the view. \<open>Nearby\<close>: \<open>find_nearby_properties\<close> (171-223):
    \<open>nearby_args\<close>, \<open>nearby_params\<close>, \<open>execute_nearby\<close>, \<open>nearby_query\<close>, the view.
    \<open>Insert\<close>: \<open>add_property\<close> (291-333): \<open>insert_params\<close>, \<open>execute_insert\<close>,
    \<open>add_property_try\<close>, the view, which returns the store after the transaction.
    \<open>Health\<close>: \<open>health_check\<close> (118-168), three probes and the aggregate answer.
    \<open>Serializer\<close>: \<open>serialize_result\<close> (42-48), and the library's \<open>isoformat\<close> and
    JSON encoding that it is written for.
  \<^item> \<open>App\<close>: the URL map, the 404 handler (336-338), 405, \<open>dispatch\<close> of one request
    and \<open>serve\<close> for a run of requests.
  \<^item> \<open>SearchEngine\<close>: the constructor of \<open>PropertySearchEngine\<close> (example.py 15-18).
  \<^item> This theory: properties that span components.

  \<^bold>\<open>What the lemmas show.\<close>
  \<^item> Search: the statement text the builder produces, read and run by the store,
    returns the active rows meeting every truthy filter, ordered by price and cut at the
    limit; placeholders match parameters; results are sound; the view's limit caps the
    rows at 100; with no zero filter and a plain type text the rows are exactly the
    spec's; zero filters are dropped by the builder; a \<open>_\<close> in the type text makes the
    filter accept values that do not contain the text; caller values never reach the
    statement text; the view answers 500 on every request (\<open>jsonify\<close> is given both a
    dict and \<open>default=\<close>).
  \<^item> Nearby: refinement, soundness and completeness of the statement, including the
    \<open>float8\<close> range of the radius and PostGIS's error for a negative one; the view's
    limit caps the rows at 100; the view answers 400 exactly on a failed conversion and
    500 otherwise (the same \<open>jsonify\<close> defect).
  \<^item> Insert: 400 with the store untouched for a missing field; the content of a stored
    row (axis order, defaults); the frame (rows only appended, at most one sequence step,
    201 exactly when a row was added); non-object bodies; the parameter tuple matches the
    statement's eight placeholders.
  \<^item> Serializer: the encoding with \<open>default=serialize_result\<close> succeeds exactly on values
    without foreign objects.
  \<^item> Health: the healthy answer's shape and exact counts; any failing probe gives 500.
  \<^item> Server: 404 for unknown paths, Werkzeug's 405 for a known path with another method;
    over any run of requests the ids of the \<open>201\<close> answers (\<open>created_id\<close>) are
    strictly increasing, within the sequence values the run consumed, and ids of stored
    rows.
  \<^item> Across components: an inserted point is found by the nearby statement; after an
    insert the health probe counts one more row and one more located row.
  \<^item> Process start: exactly when \<open>DATABASE_URL\<close> is non-empty and \<open>PORT\<close> is unset
    (5000) or an integer text (taken unchecked), with debug on exactly for
    \<open>FLASK_ENV=development\<close>.

  \<^bold>\<open>Bounds and choices.\<close> Coordinates and prices are rationals: binary64 rounding
  of finite values is not modelled, overflow to infinity (at \<open>2^1024 - 2^970\<close>) is;
  \<open>ST_X\<close>/\<open>ST_Y\<close> come back as Python floats. The limit is an unbounded \<open>int\<close>, as in
  Python; \<open>LIMIT\<close> rejects negatives. Integer parsing has CPython's 4300-digit limit.
  The radius reaches PostgreSQL as a literal converted to \<open>float8\<close>, with the same
  overflow bound; a negative radius makes \<open>ST_DWithin\<close> raise once it is evaluated on a
  located row (the sequential-scan plan; \<open>LIMIT 0\<close> reads no row). Every recursion of
  the model is structural; no fuel is used. The spatial distance is a parameter
  \<open>st_distance\<close> of the store; the theorems hold for every such function (the
  witnesses use a taxicab distance). PostgreSQL leaves the order of rows with equal
  sort key open; the model returns them in table order, so the exact-list theorems
  (the refinements) are about that one admissible order, while soundness, the bounds
  and the ordering by key hold for every order. A request's JSON object is a Python
  dict: its keys are distinct.

  \<^bold>\<open>Not modelled.\<close> \<open>app.run\<close> itself (binding the port, the Werkzeug server
  loop) and \<open>load_dotenv\<close>, which only fills the environment the model takes as input;
  the HTML of the documentation page (\<open>home\<close> returns it unchanged: the text is a
  parameter); logging; CORS headers; \<open>HEAD\<close>/\<open>OPTIONS\<close>; the JSON text itself (the
  model stops at the value \<open>jsonify\<close> serialises); Flask's own encoder for values
  \<open>jsonify\<close> handles without \<open>default\<close>; the concurrency of request handling (the spec
  states handlers share no in-process state: requests are modelled one after another,
  each against the store); the CloudWatch client beyond whether it is created; index
  scans and query planning; case folding beyond ASCII (PostgreSQL's \<open>lower()\<close>
  follows the collation).
\<close>

subsection \<open>Insert, then search nearby\<close>

text \<open>C26. A property stored by a 201 answer is found by the nearby statement centred on
  its own coordinates, at distance 0, when the store's distance is zero from a point to
  itself, the radius is not negative and within the range of \<open>float8\<close>, and the limit
  admits every row within the radius.\<close>

theorem insert_then_nearby:
  assumes add: "add_property cfg (Some (PDict kvs)) d = (resp, d')" and ok: "status resp = 201"
    and lng: "map_of kvs ''longitude'' = Some (PFloat (Fin lng))"
    and lat: "map_of kvs ''latitude'' = Some (PFloat (Fin lat))"
    and zero: "st_distance d (lng, lat) (lng, lat) = 0" and "0 \<le> radius" and "0 \<le> limit"
    and range: "radius < 2 ^ 1024 - 2 ^ 970"
    and few: "length (filter (within_radius (st_distance d) (lng, lat) (of_int radius)) (rows d')) \<le> nat limit"
  shows "\<exists>res r. execute_nearby d' (nearby_params (Fin lat) (Fin lng) radius limit) = Inr res
     \<and> (r, 0) \<in> set res \<and> resp = insert_created (pid r) \<and> location r = Some (lng, lat)"
proof -
  obtain v a p where v: "coerce_insert (request_params kvs) = Some v"
    and resp: "resp = insert_created (id_seq d)"
    and d': "d' = d\<lparr>id_seq := id_seq d + 1, rows := rows d @ [insert_row d v a p]\<rparr>"
    using add ok by (rule add_property_201)
  from coerce_insert_Some [OF v [unfolded request_params_def]] lng lat
  have loc: "iv_location v = (lng, lat)" by (simp add: wkt_point_def)
  let ?r = "insert_row d v a p"
  have r: "?r \<in> set (rows d')" "location ?r = Some (lng, lat)" "pid ?r = id_seq d"
    using loc by (simp_all add: d' insert_row_def)
  have dst: "st_distance d' = st_distance d" by (simp add: d')
  have "(?r, 0) \<in> set (nearby_rows (st_distance d') (lng, lat) (lng, lat) (of_int radius) (rows d'))"
    using r zero \<open>0 \<le> radius\<close> by (simp add: dst mem_nearby_rows within_radius_def row_distance_def)
  moreover have "take (nat limit) (nearby_rows (st_distance d') (lng, lat) (lng, lat) (of_int radius) (rows d'))
     = nearby_rows (st_distance d') (lng, lat) (lng, lat) (of_int radius) (rows d')"
    using few by (simp add: dst length_nearby_rows)
  ultimately show ?thesis using \<open>0 \<le> limit\<close> \<open>0 \<le> radius\<close> range r resp by (auto simp: execute_nearby_fin)
qed

theorem insert_then_nearby_witness:
  "\<exists>res r. execute_nearby (snd (add_property sample_config (Some (PDict sample_fields)) sample_db))
       (nearby_params (Fin (3777 / 100)) (Fin (- 12241 / 100)) 1 10) = Inr res
     \<and> (r, 0) \<in> set res \<and> insert_created 2 = insert_created (pid r) \<and> location r = Some (- 12241 / 100, 3777 / 100)"
proof -
  have e: "add_property sample_config (Some (PDict sample_fields)) sample_db
     = (insert_created 2, snd (add_property sample_config (Some (PDict sample_fields)) sample_db))"
    by (simp add: add_property_sample_run)
  have s: "status (insert_created 2) = 201" by simp
  have lng: "map_of sample_fields ''longitude'' = Some (PFloat (Fin (- 12241 / 100)))"
    and lat: "map_of sample_fields ''latitude'' = Some (PFloat (Fin (3777 / 100)))"
    by (simp_all add: sample_fields_def)
  have z: "st_distance sample_db (- 12241 / 100, 3777 / 100) (- 12241 / 100, 3777 / 100) = 0"
    by (simp add: sample_db_def taxicab_def)
  have f: "length (filter (within_radius (st_distance sample_db) (- 12241 / 100, 3777 / 100) (of_int 1))
      (rows (snd (add_property sample_config (Some (PDict sample_fields)) sample_db)))) \<le> nat 10"
  proof -
    have "rows (snd (add_property sample_config (Some (PDict sample_fields)) sample_db)) = rows sample_db @
        [\<lparr>pid = 2, address = ''1 Main St'', price = 500000, bedrooms = None, bathrooms = None,
          square_feet = None, property_type = Some ''Unknown'', listing_status = Some ''active'',
          location = Some (- 12241 / 100, 3777 / 100), created_at = sample_time\<rparr>]"
      by (simp only: add_property_sample_run) simp
    then show ?thesis by (simp add: within_radius_def sample_db_def sample_row_def taxicab_def)
  qed
  show ?thesis using insert_then_nearby [OF e s lng lat z _ _ _ f] by simp
qed

text \<open>C27. Insert, then the health probe: after a \<open>201\<close> answer to an insert, the probe
  of a store that is online and has PostGIS reports the same server facts and counts
  one more row and one more located row than before the insert (the stored row always
  has a location, built from the request's coordinates).\<close>

theorem insert_then_health:
  assumes add: "add_property cfg (Some (PDict kvs)) d = (resp, d')" and ok: "status resp = 201"
    and "online d" and "postgis_version d = Some pv"
  shows "health_check cfg d' now = \<lparr>status = 200, body = health_body now (pg_version d, db_name d, db_user d, clock d) pv
     (int (length (rows d)) + 1, int (length (filter (\<lambda>r. location r \<noteq> None) (rows d))) + 1)\<rparr>"
proof -
  obtain v a p where d': "d' = d\<lparr>id_seq := id_seq d + 1, rows := rows d @ [insert_row d v a p]\<rparr>"
    using add ok by (rule add_property_201)
  have "online d'" "postgis_version d' = Some pv" using assms by (simp_all add: d')
  from health_try_ok [OF this, of cfg now] show ?thesis
    by (simp add: health_check_def d' insert_row_def ac_simps)
qed

theorem insert_then_health_witness:
  "health_check sample_config (snd (add_property sample_config (Some (PDict sample_fields)) sample_db)) sample_time
   = \<lparr>status = 200, body = health_body sample_time (''PostgreSQL 15.4'', ''properties'', ''app'', sample_time)
       ''3.4 USE_GEOS=1 USE_PROJ=1 USE_STATS=1'' (2, 2)\<rparr>"
proof -
  have e: "add_property sample_config (Some (PDict sample_fields)) sample_db
     = (insert_created 2, snd (add_property sample_config (Some (PDict sample_fields)) sample_db))"
    by (simp add: add_property_sample_run)
  have s: "status (insert_created 2) = 201" by simp
  have o: "online sample_db" and v: "postgis_version sample_db = Some ''3.4 USE_GEOS=1 USE_PROJ=1 USE_STATS=1''"
    by (simp_all add: sample_db_def)
  show ?thesis using insert_then_health [OF e s o v, of sample_time]
    by (simp add: sample_db_def sample_row_def del: not_None_eq)
qed

end
